theory Spec2Isabelle
  imports Main
begin

section \<open>Python values used by the Sysdig Falco monitor\<close>

text \<open>
  The monitor (\<^verbatim>\<open>dagda/analysis/runtime/sysdig_falco_monitor.py\<close>) works on Python
  \<^verbatim>\<open>str\<close> and \<^verbatim>\<open>bytes\<close> values. Both are modelled as \<^typ>\<open>string\<close> (a list of 8-bit
  characters); the step from \<^verbatim>\<open>bytes\<close> to \<^verbatim>\<open>str\<close> (\<^verbatim>\<open>decode('utf-8')\<close>) is a library
  function and is taken as a parameter further below.
\<close>

subsection \<open>String primitives\<close>

definition newline :: char where
  "newline = CHR 0x0A"

text \<open>\<^verbatim>\<open>s.startswith(p)\<close>\<close>

definition startswith :: "string \<Rightarrow> string \<Rightarrow> bool" where
  "startswith s p = (take (length p) s = p)"

text \<open>\<^verbatim>\<open>p in s\<close> for two strings: \<^verbatim>\<open>p\<close> occurs in \<^verbatim>\<open>s\<close> as a contiguous piece.\<close>

fun str_contains :: "string \<Rightarrow> string \<Rightarrow> bool" where
  "str_contains [] p = (p = [])"
| "str_contains (c # cs) p = (startswith (c # cs) p \<or> str_contains cs p)"

text \<open>
  \<^verbatim>\<open>str.isspace\<close> on one character, for the characters below 256: tab, line feed,
  vertical tab, form feed, carriage return, the four separators 0x1C..0x1F, space,
  next-line 0x85 and the no-break space 0xA0.
\<close>

definition is_space :: "char \<Rightarrow> bool" where
  "is_space c = (c \<in> set [CHR 0x09, CHR 0x0A, CHR 0x0B, CHR 0x0C, CHR 0x0D,
                           CHR 0x1C, CHR 0x1D, CHR 0x1E, CHR 0x1F, CHR 0x20,
                           CHR 0x85, CHR 0xA0])"

text \<open>\<^verbatim>\<open>s.strip()\<close>: whitespace is removed at both ends.\<close>

definition lstrip :: "string \<Rightarrow> string" where
  "lstrip s = dropWhile is_space s"

definition rstrip :: "string \<Rightarrow> string" where
  "rstrip s = rev (dropWhile is_space (rev s))"

definition strip :: "string \<Rightarrow> string" where
  "strip s = rstrip (lstrip s)"

text \<open>
  \<^verbatim>\<open>s.split("\n")\<close>: the pieces between line feeds; the result is never empty, and a
  text that ends with a line feed has an empty last piece.
\<close>

fun split_nl :: "string \<Rightarrow> string list" where
  "split_nl [] = [[]]"
| "split_nl (c # cs) =
     (if c = newline then [] # split_nl cs
      else (case split_nl cs of
              [] \<Rightarrow> [[c]]
            | l # ls \<Rightarrow> (c # l) # ls))"

text \<open>\<^verbatim>\<open>s.replace(old, "")\<close> for a one-character \<^verbatim>\<open>old\<close>.\<close>

definition remove_char :: "char \<Rightarrow> string \<Rightarrow> string" where
  "remove_char c s = filter (\<lambda>x. x \<noteq> c) s"

section \<open>The log classifier\<close>

text \<open>
  \<^verbatim>\<open>datetime.datetime.now().strftime("%A")[:3] + ' '\<close>: the first three letters of the
  weekday's name (in the C locale) and a space. The clock is outside the program, so the
  weekday is an argument.
\<close>

datatype weekday = Monday | Tuesday | Wednesday | Thursday | Friday | Saturday | Sunday

fun day_name :: "weekday \<Rightarrow> string" where
  "day_name Monday = ''Monday''"
| "day_name Tuesday = ''Tuesday''"
| "day_name Wednesday = ''Wednesday''"
| "day_name Thursday = ''Thursday''"
| "day_name Friday = ''Friday''"
| "day_name Saturday = ''Saturday''"
| "day_name Sunday = ''Sunday''"

definition date_prefix :: "weekday \<Rightarrow> string" where
  "date_prefix d = take 3 (day_name d) @ '' ''"

text \<open>
  The body of the \<^verbatim>\<open>for line in lines\<close> loop of
  \<^verbatim>\<open>_parse_log_and_show_dagda_warnings\<close>. The loop's state is the warning under
  construction and the messages handed to the logger so far, oldest first.
  \<^verbatim>\<open>
        for line in lines:
            if line.startswith(date_prefix) is not True:
                line = line.strip()
                if line.startswith('Rule '):
                    if warning:
                        DagdaLogger.get_logger().warning(warning.strip())
                    warning = ''
                warning+=' ' + line
  \<close>
\<close>

definition classify_line :: "string \<Rightarrow> string \<times> string list \<Rightarrow> string \<Rightarrow> string \<times> string list" where
  "classify_line dp st line =
     (case st of (warning, logged) \<Rightarrow>
        if \<not> startswith line dp then
          (let line' = strip line in
           if startswith line' ''Rule '' then
             ('''' @ '' '' @ line',
              if warning \<noteq> [] then logged @ [strip warning] else logged)
           else (warning @ '' '' @ line', logged))
        else (warning, logged))"

definition classify_lines :: "string \<Rightarrow> string \<times> string list \<Rightarrow> string list \<Rightarrow> string \<times> string list" where
  "classify_lines dp st lines = foldl (classify_line dp) st lines"

text \<open>The whole classifier: the messages it hands to the logger, in order.\<close>

definition parse_log_and_show_dagda_warnings :: "weekday \<Rightarrow> string \<Rightarrow> string list" where
  "parse_log_and_show_dagda_warnings today sysdig_falco_logs =
     snd (classify_lines (date_prefix today) ('''', []) (split_nl sysdig_falco_logs))"

section \<open>Exceptions\<close>

text \<open>
  Every exception the modelled code can raise is a value. \<^verbatim>\<open>DagdaError\<close> carries its
  message; \<^verbatim>\<open>KeyError\<close> carries the missing key.
\<close>

datatype error =
    JSONDecodeError
  | UnicodeDecodeError
  | KeyError string
  | IndexError
  | TypeError
  | AttributeError
  | FileNotFoundError
  | DagdaError string

text \<open>Sequencing of computations that may raise: the first exception wins.\<close>

definition bind_err :: "error + 'a \<Rightarrow> ('a \<Rightarrow> error + 'b) \<Rightarrow> error + 'b" where
  "bind_err m f = (case m of Inl e \<Rightarrow> Inl e | Inr x \<Rightarrow> f x)"

section \<open>JSON records and Falco events\<close>

text \<open>
  What \<^verbatim>\<open>json.loads\<close> returns: \<^verbatim>\<open>None\<close>, a bool, an int, a float, a \<^verbatim>\<open>str\<close>, a list
  or a dict with \<^verbatim>\<open>str\<close> keys. A dict is an association list read with \<^const>\<open>map_of\<close>.
  The monitor never computes with a float, so a float is kept as its literal.
\<close>

datatype json =
    JNull
  | JBool bool
  | JInt int
  | JFloat string
  | JString string
  | JList "json list"
  | JDict "(string \<times> json) list"

text \<open>\<^verbatim>\<open>obj[key]\<close> for a \<^verbatim>\<open>str\<close> key: only a dict can be read that way.\<close>

fun subscript :: "json \<Rightarrow> string \<Rightarrow> error + json" where
  "subscript (JDict kvs) k = (case map_of kvs k of None \<Rightarrow> Inl (KeyError k) | Some v \<Rightarrow> Inr v)"
| "subscript _ k = Inl TypeError"

text \<open>\<^verbatim>\<open>key in obj\<close> for a \<^verbatim>\<open>str\<close> key.\<close>

fun key_in :: "string \<Rightarrow> json \<Rightarrow> error + bool" where
  "key_in k (JDict kvs) = Inr (map_of kvs k \<noteq> None)"
| "key_in k (JString s) = Inr (str_contains s k)"
| "key_in k (JList xs) = Inr (JString k \<in> set xs)"
| "key_in k _ = Inl TypeError"

text \<open>\<^verbatim>\<open>":" + v\<close>: only a \<^verbatim>\<open>str\<close> can be appended to a \<^verbatim>\<open>str\<close>.\<close>

fun str_add :: "string \<Rightarrow> json \<Rightarrow> error + string" where
  "str_add s (JString t) = Inr (s @ t)"
| "str_add s _ = Inl TypeError"

text \<open>
  \<^verbatim>\<open>x += s\<close> for a \<^verbatim>\<open>str\<close> \<^verbatim>\<open>s\<close>: concatenation on a \<^verbatim>\<open>str\<close>; a list is extended by
  the characters of \<^verbatim>\<open>s\<close>; every other value raises.
\<close>

fun iadd_str :: "json \<Rightarrow> string \<Rightarrow> error + json" where
  "iadd_str (JString a) s = Inr (JString (a @ s))"
| "iadd_str (JList xs) s = Inr (JList (xs @ map (\<lambda>c. JString [c]) s))"
| "iadd_str _ s = Inl TypeError"

text \<open>The dict \<^verbatim>\<open>falco_event\<close> once all six keys are set.\<close>

record falco_event =
  ev_container_id :: json
  ev_image_name :: json
  ev_output :: json
  ev_priority :: json
  ev_rule :: json
  ev_time :: json

text \<open>
  The body of the \<^verbatim>\<open>try\<close> block of \<^verbatim>\<open>run\<close>:
  \<^verbatim>\<open>
      falco_event['container_id'] = container_id
      falco_event['image_name'] = json_data['output_fields']['container.image.repository']
      if 'container.image.tag' in json_data['output_fields']:
          falco_event['image_name'] += ":" + json_data['output_fields']['container.image.tag']
      falco_event['output'] = json_data['output']
      falco_event['priority'] = json_data['priority']
      falco_event['rule'] = json_data['rule']
      falco_event['time'] = json_data['time']
      sysdig_falco_events.append(falco_event)
  \<close>
\<close>

definition image_name_of :: "json \<Rightarrow> error + json" where
  "image_name_of json_data =
     bind_err (subscript json_data ''output_fields'') (\<lambda>fields.
     bind_err (subscript fields ''container.image.repository'') (\<lambda>repository.
     bind_err (bind_err (subscript json_data ''output_fields'') (key_in ''container.image.tag''))
       (\<lambda>has_tag.
          if has_tag then
            bind_err (subscript json_data ''output_fields'') (\<lambda>fields'.
            bind_err (subscript fields' ''container.image.tag'') (\<lambda>tag.
            bind_err (str_add '':'' tag) (\<lambda>suffix.
            iadd_str repository suffix)))
          else Inr repository)))"

definition build_event :: "json \<Rightarrow> json \<Rightarrow> error + falco_event" where
  "build_event json_data container_id =
     bind_err (image_name_of json_data) (\<lambda>image_name.
     bind_err (subscript json_data ''output'') (\<lambda>outp.
     bind_err (subscript json_data ''priority'') (\<lambda>prio.
     bind_err (subscript json_data ''rule'') (\<lambda>rl.
     bind_err (subscript json_data ''time'') (\<lambda>tm.
       Inr \<lparr> ev_container_id = container_id, ev_image_name = image_name, ev_output = outp,
             ev_priority = prio, ev_rule = rl, ev_time = tm \<rparr>)))))"

text \<open>
  One parsed record: the container id is read outside the \<^verbatim>\<open>try\<close>; inside it,
  \<^verbatim>\<open>IndexError\<close> and \<^verbatim>\<open>KeyError\<close> are swallowed and every other exception goes on.
  The result is the event appended to \<^verbatim>\<open>sysdig_falco_events\<close>, if any.
\<close>

definition process_record :: "json \<Rightarrow> error + falco_event option" where
  "process_record json_data =
     bind_err (subscript json_data ''output_fields'') (\<lambda>fields.
     bind_err (subscript fields ''container.id'') (\<lambda>container_id.
       if container_id \<noteq> JString ''host'' then
         (case build_event json_data container_id of
            Inr ev \<Rightarrow> Inr (Some ev)
          | Inl IndexError \<Rightarrow> Inr None
          | Inl (KeyError k) \<Rightarrow> Inr None
          | Inl e \<Rightarrow> Inl e)
       else Inr None))"

text \<open>
  The two library functions applied to a line, \<^verbatim>\<open>bytes.decode('utf-8')\<close> and
  \<^verbatim>\<open>json.loads\<close>, are parameters; \<open>None\<close> stands for \<^verbatim>\<open>UnicodeDecodeError\<close> and for
  \<^verbatim>\<open>JSONDecodeError\<close>.
\<close>

record pylib =
  utf8_decode :: "string \<Rightarrow> string option"
  json_loads :: "string \<Rightarrow> json option"

text \<open>
  \<^verbatim>\<open>
      line = line.decode('utf-8').replace("\n", "")
      json_data = json.loads(line)
  \<close>
  followed by the processing of the record.
\<close>

definition process_line :: "pylib \<Rightarrow> string \<Rightarrow> error + falco_event option" where
  "process_line lib line =
     (case utf8_decode lib line of
        None \<Rightarrow> Inl UnicodeDecodeError
      | Some text \<Rightarrow>
          (case json_loads lib (remove_char newline text) of
             None \<Rightarrow> Inl JSONDecodeError
           | Some json_data \<Rightarrow> process_record json_data))"

text \<open>
  The loop \<^verbatim>\<open>for line in content\<close>: the events collected so far are the accumulator; an
  exception leaves the loop (and \<^verbatim>\<open>run\<close>).
\<close>

fun process_lines :: "pylib \<Rightarrow> string list \<Rightarrow> falco_event list \<Rightarrow> error + falco_event list" where
  "process_lines lib [] sysdig_falco_events = Inr sysdig_falco_events"
| "process_lines lib (line # content) sysdig_falco_events =
     (case process_line lib line of
        Inl e \<Rightarrow> Inl e
      | Inr None \<Rightarrow> process_lines lib content sysdig_falco_events
      | Inr (Some ev) \<Rightarrow> process_lines lib content (sysdig_falco_events @ [ev]))"

text \<open>
  \<^verbatim>\<open>readlines()\<close> on a binary stream: the rest of the file cut after each line feed; a
  last line without line feed is returned as it is.
\<close>

fun readlines :: "string \<Rightarrow> string list" where
  "readlines [] = []"
| "readlines (c # cs) =
     (if c = newline then [c] # readlines cs
      else (case readlines cs of
              [] \<Rightarrow> [[c]]
            | l # ls \<Rightarrow> (c # l) # ls))"

section \<open>The monitor and the world around it\<close>

text \<open>
  Every call that leaves the program (operating system, subprocess, Docker driver, MongoDB
  driver, logger, clock, the output file) is recorded as an action, in the order of the
  calls. What such a call returns is read from a record of answers.
\<close>

datatype action =
    CopyFile string string
  | ReadOsRelease
  | Uname
  | IsFile string
  | SubprocessCall "string list"
  | LogWarning string
  | GetDockerClient
  | DockerPull string string
  | GetDockerContainerIdsByImageName string
  | DockerStop string
  | DockerRemoveContainer string
  | DeleteFalcoEventsCollection
  | CreateHostConfig "string list" bool
  | CreateContainer string "string option" "string list"
  | DockerStart string
  | Sleep nat
  | DockerLogs string
  | DatetimeNow
  | OpenFile string
  | SeekReadlinesTell nat
  | BulkInsertSysdigFalcoEvents "falco_event list"

record world =
  copyfile :: "string \<Rightarrow> string \<Rightarrow> error option"
  os_release :: "error + string"
  uname_release :: string
  isfile :: "string \<Rightarrow> bool"
  subprocess_call :: "string list \<Rightarrow> int"
  docker_client :: bool
  container_ids_by_image_name :: "string \<Rightarrow> string list"
  created_container_id :: "string option \<Rightarrow> string"
  docker_logs :: "string \<Rightarrow> string"
  today :: weekday
  output_file :: "nat \<Rightarrow> string"
  library :: pylib

text \<open>
  The answers: \<open>copyfile\<close> is the exception \<^verbatim>\<open>shutil.copyfile\<close> raises for a source
  and a destination (\<open>None\<close> when the copy succeeds); \<open>os_release\<close> is the decoded
  characters of \<^verbatim>\<open>/etc/os-release\<close>, line endings as they are in the file, or the
  exception raised when the file cannot be opened or decoded; \<open>uname_release\<close> is \<^verbatim>\<open>os.uname().release\<close>; \<open>isfile\<close> is
  \<^verbatim>\<open>os.path.isfile\<close>; \<open>subprocess_call\<close> is the return code of \<^verbatim>\<open>subprocess.call\<close>;
  \<open>docker_client\<close> tells whether \<^verbatim>\<open>get_docker_client()\<close> is not \<^verbatim>\<open>None\<close>;
  \<open>created_container_id\<close> is the id \<^verbatim>\<open>create_container\<close> returns for an entrypoint;
  \<open>output_file n\<close> is the content of the output file at the n-th read of the tailing
  loop (the sensor writes the file while the monitor reads it).
\<close>

text \<open>
  The attributes set by the constructor: \<^verbatim>\<open>self.falco_rules\<close>, the class attribute
  \<^verbatim>\<open>_falco_output_filename\<close> and the flag kept by \<^verbatim>\<open>InternalServer\<close>.
\<close>

record monitor =
  falco_rules :: string
  falco_output_filename :: string
  external_falco :: bool

text \<open>What \<^verbatim>\<open>pre_check\<close> and \<^verbatim>\<open>run\<close> change: the actions so far and \<^verbatim>\<open>self.running_container_id\<close>.\<close>

record mstate =
  trace :: "action list"
  running_container_id :: string

type_synonym 'a prog = "mstate \<Rightarrow> (error + 'a) \<times> mstate"

definition ret :: "'a \<Rightarrow> 'a prog" where
  "ret x = (\<lambda>s. (Inr x, s))"

definition raise :: "error \<Rightarrow> 'a prog" where
  "raise e = (\<lambda>s. (Inl e, s))"

definition bind_prog :: "'a prog \<Rightarrow> ('a \<Rightarrow> 'b prog) \<Rightarrow> 'b prog" where
  "bind_prog m f = (\<lambda>s. case m s of (Inl e, s') \<Rightarrow> (Inl e, s') | (Inr x, s') \<Rightarrow> f x s')"

definition act :: "action \<Rightarrow> unit prog" where
  "act a = (\<lambda>s. (Inr (), s\<lparr>trace := trace s @ [a]\<rparr>))"

definition set_running_container_id :: "string \<Rightarrow> unit prog" where
  "set_running_container_id cid = (\<lambda>s. (Inr (), s\<lparr>running_container_id := cid\<rparr>))"

definition get_running_container_id :: "string prog" where
  "get_running_container_id = (\<lambda>s. (Inr (running_container_id s), s))"

subsection \<open>Constants of the class\<close>

definition tmp_directory :: string where
  "tmp_directory = ''/tmp''"

definition default_falco_output_filename :: string where
  "default_falco_output_filename = tmp_directory @ ''/falco_output.json''"

definition falco_custom_rules_filename :: string where
  "falco_custom_rules_filename = tmp_directory @ ''/custom_falco_rules.yaml''"

definition falco_image :: string where
  "falco_image = ''falcosecurity/falco:0.29.0''"

definition device_error :: string where
  "device_error = ''Runtime error: error opening device /host/dev/sysdig0''"

subsection \<open>The constructor\<close>

text \<open>
  \<^verbatim>\<open>__init__(self, docker_driver, mongodb_driver, falco_rules_filename,
  external_falco_output_filename)\<close>. The arguments \<open>filename\<close> and \<open>flag\<close> are the
  class attribute and the \<^verbatim>\<open>InternalServer\<close> flag before the call.
  \<^verbatim>\<open>
        self.running_container_id = ''
        if falco_rules_filename is None:
            self.falco_rules = ''
        else:
            copyfile(falco_rules_filename, SysdigFalcoMonitor._falco_custom_rules_filename)
            self.falco_rules = ' -o rules_file=/host' + SysdigFalcoMonitor._falco_custom_rules_filename
        if external_falco_output_filename is not None:
            InternalServer.set_external_falco(True)
            SysdigFalcoMonitor._falco_output_filename = external_falco_output_filename
  \<close>
  When \<^verbatim>\<open>copyfile\<close> raises, the constructor raises and there is no monitor.
\<close>

definition output_settings :: "string \<Rightarrow> bool \<Rightarrow> string option \<Rightarrow> string \<Rightarrow> monitor" where
  "output_settings filename flag external_falco_output_filename rules =
     \<lparr> falco_rules = rules,
       falco_output_filename =
         (case external_falco_output_filename of None \<Rightarrow> filename | Some f \<Rightarrow> f),
       external_falco =
         (case external_falco_output_filename of None \<Rightarrow> flag | Some f \<Rightarrow> True) \<rparr>"

definition init ::
  "world \<Rightarrow> string \<Rightarrow> bool \<Rightarrow> string option \<Rightarrow> string option \<Rightarrow> (error + monitor) \<times> mstate" where
  "init w filename flag falco_rules_filename external_falco_output_filename =
     (case falco_rules_filename of
        None \<Rightarrow>
          (Inr (output_settings filename flag external_falco_output_filename []),
           \<lparr> trace = [], running_container_id = [] \<rparr>)
      | Some f \<Rightarrow>
          (case copyfile w f falco_custom_rules_filename of
             Some e \<Rightarrow>
               (Inl e,
                \<lparr> trace = [CopyFile f falco_custom_rules_filename], running_container_id = [] \<rparr>)
           | None \<Rightarrow>
               (Inr (output_settings filename flag external_falco_output_filename
                       ('' -o rules_file=/host'' @ falco_custom_rules_filename)),
                \<lparr> trace = [CopyFile f falco_custom_rules_filename],
                  running_container_id = [] \<rparr>)))"

subsection \<open>Reading the name of the distribution\<close>

text \<open>
  \<^verbatim>\<open>s.replace(old, '')\<close> for a non-empty \<^verbatim>\<open>old\<close>: the occurrences are removed from
  left to right. The counter is the number of characters of the current occurrence that
  are still to be skipped.
\<close>

fun str_remove_from :: "string \<Rightarrow> nat \<Rightarrow> string \<Rightarrow> string" where
  "str_remove_from old k [] = []"
| "str_remove_from old (Suc k) (c # cs) = str_remove_from old k cs"
| "str_remove_from old 0 (c # cs) =
     (if old \<noteq> [] \<and> startswith (c # cs) old then str_remove_from old (length old - 1) cs
      else c # str_remove_from old 0 cs)"

definition str_remove :: "string \<Rightarrow> string \<Rightarrow> string" where
  "str_remove old s = str_remove_from old 0 s"

text \<open>
  The loop of \<^verbatim>\<open>_get_linux_distro\<close>:
  \<^verbatim>\<open>
        for line in lines:
            if line.startswith('NAME='):
                name = line.replace('NAME=', '').replace("\n", '').replace("'", '').replace('"', '')
                return name
  \<close>
  A file without such a line makes the function return \<^verbatim>\<open>None\<close>.
\<close>

fun first_name :: "string list \<Rightarrow> string option" where
  "first_name [] = None"
| "first_name (line # lines) =
     (if startswith line ''NAME='' then
        Some (remove_char (CHR 0x22) (remove_char (CHR 0x27)
               (remove_char newline (str_remove ''NAME='' line))))
      else first_name lines)"

text \<open>
  \<^verbatim>\<open>open('/etc/os-release', 'r')\<close> reads the file in text mode: a carriage return
  followed by a line feed, a carriage return alone and a line feed alone each end a line,
  and each is handed to the program as one line feed.
\<close>

definition carriage_return :: char where
  "carriage_return = CHR 0x0D"

fun universal_newlines :: "string \<Rightarrow> string" where
  "universal_newlines [] = []"
| "universal_newlines [c] = [if c = carriage_return then newline else c]"
| "universal_newlines (c # d # cs) =
     (if c = carriage_return \<and> d = newline then newline # universal_newlines cs
      else if c = carriage_return then newline # universal_newlines (d # cs)
      else c # universal_newlines (d # cs))"

text \<open>\<^verbatim>\<open>f.readlines()\<close> on a file opened in text mode.\<close>

definition text_readlines :: "string \<Rightarrow> string list" where
  "text_readlines content = readlines (universal_newlines content)"

definition get_linux_distro :: "world \<Rightarrow> string option prog" where
  "get_linux_distro w =
     bind_prog (act ReadOsRelease) (\<lambda>_.
       case os_release w of
         Inl e \<Rightarrow> raise e
       | Inr content \<Rightarrow> ret (first_name (text_readlines content)))"

subsection \<open>Starting the container\<close>

definition container_volumes :: "string list" where
  "container_volumes =
     [''/host/var/run/docker.sock'', ''/host/dev'', ''/host/proc'', ''/host/boot'',
      ''/host/lib/modules'', ''/host/usr'', ''/host/etc'', ''/host'' @ tmp_directory]"

definition container_binds :: "string list" where
  "container_binds =
     [''/var/run/docker.sock:/host/var/run/docker.sock'', ''/dev:/host/dev'',
      ''/proc:/host/proc:ro'', ''/boot:/host/boot:ro'',
      ''/lib/modules:/host/lib/modules:ro'', ''/usr:/host/usr:ro'', ''/etc:/host/etc:ro'',
      tmp_directory @ '':/host'' @ tmp_directory @ '':rw'']"

text \<open>
  \<^verbatim>\<open>_start_container(self, entrypoint=None)\<close>: the arguments of \<^verbatim>\<open>create_container\<close> are
  evaluated first (the host configuration is asked of the Docker client, which must not
  be \<^verbatim>\<open>None\<close>), then the container is created and started.
\<close>

definition start_container :: "world \<Rightarrow> string option \<Rightarrow> string prog" where
  "start_container w entrypoint =
     bind_prog (act GetDockerClient) (\<lambda>_.
     if \<not> docker_client w then raise AttributeError
     else
       bind_prog (act (CreateHostConfig container_binds True)) (\<lambda>_.
       bind_prog (act (CreateContainer falco_image entrypoint container_volumes)) (\<lambda>_.
       bind_prog (act (DockerStart (created_container_id w entrypoint))) (\<lambda>_.
       ret (created_container_id w entrypoint)))))"

subsection \<open>\<^verbatim>\<open>pre_check\<close>\<close>

definition is_rpm_family :: "string \<Rightarrow> bool" where
  "is_rpm_family linux_distro =
     (str_contains linux_distro ''Red Hat'' \<or> str_contains linux_distro ''CentOS''
      \<or> str_contains linux_distro ''Fedora'' \<or> str_contains linux_distro ''openSUSE'')"

definition is_deb_family :: "string \<Rightarrow> bool" where
  "is_deb_family linux_distro =
     (str_contains linux_distro ''Debian'' \<or> str_contains linux_distro ''Ubuntu'')"

definition unsupported_msg :: string where
  "unsupported_msg = ''Linux distribution not supported yet.''"

definition missing_headers_msg :: string where
  "missing_headers_msg = ''The kernel headers are not installed in the host operating system.''"

definition docker_api_msg :: string where
  "docker_api_msg = ''Error while fetching Docker server API version.''"

definition device_msg :: string where
  "device_msg = ''Runtime error opening device /host/dev/sysdig0.''"

definition inside_docker_msg :: string where
  "inside_docker_msg =
     ''I'' @ [CHR 0x27] @ ''m running inside a docker container, so I can'' @ [CHR 0x27]
     @ ''t check if the kernel headers are installed in the host operating system. ''
     @ ''Please, review it!!''"

text \<open>
  The package query (lines 68 to 78): which command is run for a distribution, or the
  error for a distribution of neither family.
\<close>

definition headers_command :: "string \<Rightarrow> string \<Rightarrow> error + string list" where
  "headers_command linux_distro uname_r =
     (if is_rpm_family linux_distro then Inr [''rpm'', ''-q'', ''kernel-devel-'' @ uname_r]
      else if is_deb_family linux_distro then Inr [''dpkg'', ''-l'', ''linux-headers-'' @ uname_r]
      else Inl (DagdaError unsupported_msg))"

text \<open>
  \<^verbatim>\<open>'Red Hat' in linux_distro\<close> raises \<^verbatim>\<open>TypeError\<close> when \<^verbatim>\<open>_get_linux_distro\<close> returned
  \<^verbatim>\<open>None\<close>. The result is the return code of the command.
\<close>

definition headers_lookup :: "world \<Rightarrow> string option \<Rightarrow> string \<Rightarrow> int prog" where
  "headers_lookup w linux_distro uname_r =
     (case linux_distro of
        None \<Rightarrow> raise TypeError
      | Some d \<Rightarrow>
          (case headers_command d uname_r of
             Inl e \<Rightarrow> raise e
           | Inr argv \<Rightarrow>
               bind_prog (act (SubprocessCall argv)) (\<lambda>_. ret (subprocess_call w argv))))"

text \<open>The requirements check (lines 67 to 84).\<close>

definition check_requirements :: "world \<Rightarrow> string option \<Rightarrow> string \<Rightarrow> unit prog" where
  "check_requirements w linux_distro uname_r =
     bind_prog (act (IsFile ''/.dockerenv'')) (\<lambda>_.
     if \<not> isfile w ''/.dockerenv'' then
       bind_prog (headers_lookup w linux_distro uname_r) (\<lambda>return_code.
       if return_code \<noteq> 0 then raise (DagdaError missing_headers_msg) else ret ())
     else act (LogWarning inside_docker_msg))"

text \<open>The loop that stops and removes the containers found (lines 96 to 98).\<close>

fun stop_and_remove :: "string list \<Rightarrow> unit prog" where
  "stop_and_remove [] = ret ()"
| "stop_and_remove (container_id # container_ids) =
     bind_prog (act (DockerStop container_id)) (\<lambda>_.
     bind_prog (act (DockerRemoveContainer container_id)) (\<lambda>_.
     stop_and_remove container_ids))"

text \<open>Lines 86 to 101: Docker client, image pull, old containers, old events.\<close>

definition prepare_docker :: "world \<Rightarrow> unit prog" where
  "prepare_docker w =
     bind_prog (act GetDockerClient) (\<lambda>_.
     if \<not> docker_client w then raise (DagdaError docker_api_msg)
     else
       bind_prog (act (DockerPull ''falcosecurity/falco'' ''0.29.0'')) (\<lambda>_.
       bind_prog (act (GetDockerContainerIdsByImageName falco_image)) (\<lambda>_.
       bind_prog (if length (container_ids_by_image_name w falco_image) > 0
                  then stop_and_remove (container_ids_by_image_name w falco_image)
                  else ret ()) (\<lambda>_.
       act DeleteFalcoEventsCollection))))"

text \<open>
  Lines 105 to 113, the container started without entrypoint:
  \<^verbatim>\<open>
            self.running_container_id = self._start_container()
            time.sleep(30)
            logs = self.docker_driver.docker_logs(self.running_container_id, True, True, False)
            if "Runtime error: error opening device /host/dev/sysdig0" not in logs:
                self.docker_driver.docker_stop(self.running_container_id)
            else:
                raise DagdaError('Runtime error opening device /host/dev/sysdig0.')
            # Clean up
            self.docker_driver.docker_remove_container(self.running_container_id)
  \<close>
\<close>

definition probe_device :: "world \<Rightarrow> unit prog" where
  "probe_device w =
     bind_prog (start_container w None) (\<lambda>cid.
     bind_prog (set_running_container_id cid) (\<lambda>_.
     bind_prog (act (Sleep 30)) (\<lambda>_.
     bind_prog get_running_container_id (\<lambda>rid.
     bind_prog (act (DockerLogs rid)) (\<lambda>_.
     bind_prog (if \<not> str_contains (docker_logs w rid) device_error
                then bind_prog get_running_container_id (\<lambda>rid'. act (DockerStop rid'))
                else raise (DagdaError device_msg)) (\<lambda>_.
     bind_prog get_running_container_id (\<lambda>rid''.
     act (DockerRemoveContainer rid''))))))))"

text \<open>Lines 62 to 101: everything \<^verbatim>\<open>pre_check\<close> does before it starts a container.\<close>

definition preflight :: "world \<Rightarrow> unit prog" where
  "preflight w =
     bind_prog (get_linux_distro w) (\<lambda>linux_distro.
     bind_prog (act Uname) (\<lambda>_.
     bind_prog (check_requirements w linux_distro (uname_release w)) (\<lambda>_.
     prepare_docker w)))"

definition pre_check :: "world \<Rightarrow> monitor \<Rightarrow> unit prog" where
  "pre_check w m =
     (if \<not> external_falco m then
        bind_prog (preflight w) (\<lambda>_. probe_device w)
      else ret ())"

subsection \<open>\<^verbatim>\<open>run\<close>\<close>

definition falco_command :: "monitor \<Rightarrow> string" where
  "falco_command m =
     ''falco -pc -o json_output=true -o file_output.enabled=true ''
     @ ''-o file_output.filename=/host'' @ falco_output_filename m @ falco_rules m"

definition output_not_found_msg :: string where
  "output_not_found_msg = ''Falcosecurity/falco output file not found.''"

text \<open>Lines 117 to 124: the sensor is started unless its output is managed elsewhere.\<close>

definition launch :: "world \<Rightarrow> monitor \<Rightarrow> unit prog" where
  "launch w m =
     (if \<not> external_falco m then
        bind_prog (start_container w (Some (falco_command m))) (\<lambda>cid.
        bind_prog (set_running_container_id cid) (\<lambda>_.
        act (Sleep 3)))
      else ret ())"

text \<open>
  Lines 127 to 130. \<^verbatim>\<open>or\<close> and \<^verbatim>\<open>and\<close> evaluate from left to right and stop as soon as
  the result is known, so the Docker driver is asked for the containers only when the
  file exists and the sensor is managed by the monitor.
\<close>

definition verify_startup :: "world \<Rightarrow> monitor \<Rightarrow> unit prog" where
  "verify_startup w m =
     bind_prog (act (IsFile (falco_output_filename m))) (\<lambda>_.
     bind_prog
       (if \<not> isfile w (falco_output_filename m) then ret True
        else if \<not> external_falco m then
          bind_prog (act (GetDockerContainerIdsByImageName falco_image)) (\<lambda>_.
          ret (length (container_ids_by_image_name w falco_image) = 0))
        else ret False) (\<lambda>not_found.
     if not_found then raise (DagdaError output_not_found_msg) else ret ()))"

text \<open>The classifier as a step of \<^verbatim>\<open>run\<close>: the clock is read, then each warning is logged.\<close>

fun log_warnings :: "string list \<Rightarrow> unit prog" where
  "log_warnings [] = ret ()"
| "log_warnings (warning # warnings) =
     bind_prog (act (LogWarning warning)) (\<lambda>_. log_warnings warnings)"

definition show_dagda_warnings :: "world \<Rightarrow> string \<Rightarrow> unit prog" where
  "show_dagda_warnings w sysdig_falco_logs =
     bind_prog (act DatetimeNow) (\<lambda>_.
     log_warnings (parse_log_and_show_dagda_warnings (today w) sysdig_falco_logs))"

text \<open>Lines 133 to 136.\<close>

definition review_logs :: "world \<Rightarrow> monitor \<Rightarrow> unit prog" where
  "review_logs w m =
     (if \<not> external_falco m then
        bind_prog get_running_container_id (\<lambda>rid.
        bind_prog (act (DockerLogs rid)) (\<lambda>_.
        if str_contains (docker_logs w rid) ''Rule ''
        then show_dagda_warnings w (docker_logs w rid)
        else ret ()))
      else ret ())"

text \<open>
  One turn of the \<^verbatim>\<open>while True\<close> loop (lines 143 to 171), the \<open>n\<close>-th one, started with
  \<^verbatim>\<open>last_file_position = pos\<close>; it returns the new \<^verbatim>\<open>last_file_position\<close>.
  \<^verbatim>\<open>seek\<close> may go beyond the end of the file; \<^verbatim>\<open>readlines\<close> then returns no line and
  \<^verbatim>\<open>tell\<close> returns the position sought. Otherwise \<^verbatim>\<open>tell\<close> returns the end of the file.
\<close>

definition tail_cycle :: "world \<Rightarrow> nat \<Rightarrow> nat \<Rightarrow> nat prog" where
  "tail_cycle w n pos =
     bind_prog (act (SeekReadlinesTell pos)) (\<lambda>_.
     case process_lines (library w) (readlines (drop pos (output_file w n))) [] of
       Inl e \<Rightarrow> raise e
     | Inr sysdig_falco_events \<Rightarrow>
         bind_prog (if length sysdig_falco_events > 0
                    then act (BulkInsertSysdigFalcoEvents sysdig_falco_events)
                    else ret ()) (\<lambda>_.
         bind_prog (act (Sleep 2)) (\<lambda>_.
         ret (pos + length (drop pos (output_file w n))))))"

text \<open>
  The loop never ends by itself. \<open>tail_loop w k n pos\<close> is its first \<open>k\<close> turns, numbered
  from \<open>n\<close>: the result is the \<^verbatim>\<open>last_file_position\<close> reached, or the exception that
  ended the loop before.
\<close>

fun tail_loop :: "world \<Rightarrow> nat \<Rightarrow> nat \<Rightarrow> nat \<Rightarrow> nat prog" where
  "tail_loop w 0 n pos = ret pos"
| "tail_loop w (Suc k) n pos =
     bind_prog (tail_cycle w n pos) (\<lambda>pos'. tail_loop w k (Suc n) pos')"

text \<open>\<^verbatim>\<open>run\<close>, observed for the first \<open>k\<close> turns of its loop.\<close>

definition run :: "world \<Rightarrow> monitor \<Rightarrow> nat \<Rightarrow> nat prog" where
  "run w m k =
     bind_prog (launch w m) (\<lambda>_.
     bind_prog (verify_startup w m) (\<lambda>_.
     bind_prog (review_logs w m) (\<lambda>_.
     bind_prog (act (OpenFile (falco_output_filename m))) (\<lambda>_.
     tail_loop w k 0 0))))"

section \<open>Notions used to state the properties\<close>

text \<open>A text without whitespace at either end.\<close>

definition no_outer_space :: "string \<Rightarrow> bool" where
  "no_outer_space s = (s = [] \<or> (\<not> is_space (hd s) \<and> \<not> is_space (last s)))"

text \<open>
  A line at which the classifier starts a new warning: it does not begin with the date
  prefix and, once stripped, begins with \<^verbatim>\<open>Rule\<close> and a space.
\<close>

definition is_rule_line :: "string \<Rightarrow> string \<Rightarrow> bool" where
  "is_rule_line dp line = (\<not> startswith line dp \<and> startswith (strip line) ''Rule '')"

text \<open>
  The text a run of lines adds to a warning: a space and the stripped line, for each line
  that does not begin with the date prefix.
\<close>

fun joined :: "string \<Rightarrow> string list \<Rightarrow> string" where
  "joined dp [] = []"
| "joined dp (line # lines) =
     (if startswith line dp then joined dp lines else '' '' @ strip line @ joined dp lines)"

text \<open>
  The lines of a log cut at the rule lines: the lines before the first rule line, then one
  block for each rule line, made of that line and the lines up to the next rule line.
\<close>

fun split_blocks :: "string \<Rightarrow> string list \<Rightarrow> string list \<times> string list list" where
  "split_blocks dp [] = ([], [])"
| "split_blocks dp (line # lines) =
     (case split_blocks dp lines of
        (pre, blocks) \<Rightarrow>
          if is_rule_line dp line then ([], (line # pre) # blocks) else (line # pre, blocks))"

text \<open>What the logger receives when a warning is closed: nothing for an empty one.\<close>

definition flush :: "string \<Rightarrow> string list" where
  "flush warning = (if warning \<noteq> [] then [strip warning] else [])"

text \<open>The calls made to the Docker driver, among all actions.\<close>

definition is_engine_action :: "action \<Rightarrow> bool" where
  "is_engine_action a =
     (case a of
        GetDockerClient \<Rightarrow> True
      | DockerPull name tag \<Rightarrow> True
      | GetDockerContainerIdsByImageName img \<Rightarrow> True
      | DockerStop cid \<Rightarrow> True
      | DockerRemoveContainer cid \<Rightarrow> True
      | CreateHostConfig binds privileged \<Rightarrow> True
      | CreateContainer img entrypoint volumes \<Rightarrow> True
      | DockerStart cid \<Rightarrow> True
      | DockerLogs cid \<Rightarrow> True
      | _ \<Rightarrow> False)"

text \<open>
  The event of a record: the six fields, with the image name made of the repository and,
  when the record has a tag, a colon and the tag.
\<close>

definition sensor_event ::
  "json \<Rightarrow> string \<Rightarrow> string option \<Rightarrow> json \<Rightarrow> json \<Rightarrow> json \<Rightarrow> json \<Rightarrow> falco_event" where
  "sensor_event cid repository tag outp prio rl tm =
     \<lparr> ev_container_id = cid,
       ev_image_name = JString (case tag of None \<Rightarrow> repository | Some t \<Rightarrow> repository @ '':'' @ t),
       ev_output = outp, ev_priority = prio, ev_rule = rl, ev_time = tm \<rparr>"

section \<open>Concrete inputs\<close>

text \<open>
  Lines of an output file and the records \<^verbatim>\<open>json.loads\<close> returns for them: the record of
  a container with an image tag, a record of the host, a record of a container without
  \<^verbatim>\<open>priority\<close>, \<^verbatim>\<open>rule\<close> and \<^verbatim>\<open>time\<close>, and a line cut in the middle of a write.
\<close>

definition scenario_line :: string where
  "scenario_line =
     ''{\"output_fields\":{\"container.id\":\"abc\",\"container.image.repository\":\"nginx\",''
     @ ''\"container.image.tag\":\"1.21\"},\"output\":\"X\",\"priority\":\"WARNING\",''
     @ ''\"rule\":\"R1\",\"time\":\"t1\"}''"

definition scenario_record :: json where
  "scenario_record =
     JDict [(''output_fields'',
             JDict [(''container.id'', JString ''abc''),
                    (''container.image.repository'', JString ''nginx''),
                    (''container.image.tag'', JString ''1.21'')]),
            (''output'', JString ''X''), (''priority'', JString ''WARNING''),
            (''rule'', JString ''R1''), (''time'', JString ''t1'')]"

definition host_line :: string where
  "host_line =
     ''{\"output_fields\":{\"container.id\":\"host\"},\"output\":\"Y\",\"priority\":\"NOTICE\",''
     @ ''\"rule\":\"R2\",\"time\":\"t2\"}''"

definition host_record :: json where
  "host_record =
     JDict [(''output_fields'', JDict [(''container.id'', JString ''host'')]),
            (''output'', JString ''Y''), (''priority'', JString ''NOTICE''),
            (''rule'', JString ''R2''), (''time'', JString ''t2'')]"

definition ancient_line :: string where
  "ancient_line =
     ''{\"output_fields\":{\"container.id\":\"abc\",\"container.image.repository\":\"nginx\"},''
     @ ''\"output\":\"Z\"}''"

definition ancient_record :: json where
  "ancient_record =
     JDict [(''output_fields'',
             JDict [(''container.id'', JString ''abc''),
                    (''container.image.repository'', JString ''nginx'')]),
            (''output'', JString ''Z'')]"

definition truncated_line :: string where
  "truncated_line = ''{\"output_fields\":{\"container.id\":\"abc\",\"contai''"

text \<open>
  \<^verbatim>\<open>json.loads\<close> on the three complete lines above. Every other text is refused, as
  \<^verbatim>\<open>json.loads\<close> refuses the line cut in the middle.
\<close>

definition example_loads :: "string \<Rightarrow> json option" where
  "example_loads s =
     (if s = scenario_line then Some scenario_record
      else if s = host_line then Some host_record
      else if s = ancient_line then Some ancient_record
      else None)"

text \<open>\<^verbatim>\<open>decode('utf-8')\<close> on bytes below 128, which it leaves as they are.\<close>

definition ascii_decode :: "string \<Rightarrow> string option" where
  "ascii_decode b = (if list_all (\<lambda>c. of_char c < (128 :: nat)) b then Some b else None)"

definition example_lib :: pylib where
  "example_lib = \<lparr> utf8_decode = ascii_decode, json_loads = example_loads \<rparr>"

text \<open>
  A host running Ubuntu with the kernel headers installed, a reachable Docker daemon and a
  sensor that starts well. The output file holds the container's record and the host's
  record from the first read on.
\<close>

definition ubuntu_os_release :: string where
  "ubuntu_os_release =
     ''PRETTY_NAME=\"Ubuntu 22.04.3 LTS\"'' @ [newline] @ ''NAME=\"Ubuntu\"'' @ [newline]
     @ ''VERSION_ID=\"22.04\"'' @ [newline]"

definition alpine_os_release :: string where
  "alpine_os_release = ''NAME=\"Alpine Linux\"'' @ [newline] @ ''ID=alpine'' @ [newline]"

definition example_world :: world where
  "example_world =
     \<lparr> copyfile = (\<lambda>src dst. None),
       os_release = Inr ubuntu_os_release,
       uname_release = ''5.15.0-91-generic'',
       isfile = (\<lambda>path. path = default_falco_output_filename \<or> path = ''/var/log/falco.json''),
       subprocess_call = (\<lambda>argv. 0),
       docker_client = True,
       container_ids_by_image_name = (\<lambda>img. [''c0ffee'']),
       created_container_id = (\<lambda>entrypoint. ''c0ffee''),
       docker_logs = (\<lambda>cid. ''Falco initialized''),
       today = Wednesday,
       output_file = (\<lambda>n. scenario_line @ [newline] @ host_line @ [newline]),
       library = example_lib \<rparr>"

definition no_headers_world :: world where
  "no_headers_world = example_world \<lparr> subprocess_call := (\<lambda>argv. 1) \<rparr>"

definition alpine_world :: world where
  "alpine_world = example_world \<lparr> os_release := Inr alpine_os_release \<rparr>"

definition no_device_world :: world where
  "no_device_world =
     example_world \<lparr> docker_logs := (\<lambda>cid. ''Wed Nov  4 10:00:00 2026: '' @ device_error) \<rparr>"

definition truncated_world :: world where
  "truncated_world =
     example_world \<lparr> output_file := (\<lambda>n. truncated_line @ [newline] @ scenario_line @ [newline]) \<rparr>"

definition ancient_world :: world where
  "ancient_world =
     example_world \<lparr> output_file := (\<lambda>n. ancient_line @ [newline] @ scenario_line @ [newline]) \<rparr>"

definition self_managed :: monitor where
  "self_managed =
     \<lparr> falco_rules = [], falco_output_filename = default_falco_output_filename,
       external_falco = False \<rparr>"

definition externally_managed :: monitor where
  "externally_managed =
     \<lparr> falco_rules = [], falco_output_filename = ''/var/log/falco.json'',
       external_falco = True \<rparr>"

definition initial_state :: mstate where
  "initial_state = \<lparr> trace = [], running_container_id = [] \<rparr>"

definition scenario_event :: falco_event where
  "scenario_event =
     \<lparr> ev_container_id = JString ''abc'', ev_image_name = JString ''nginx:1.21'',
       ev_output = JString ''X'', ev_priority = JString ''WARNING'',
       ev_rule = JString ''R1'', ev_time = JString ''t1'' \<rparr>"

definition two_rules_log :: string where
  "two_rules_log =
     ''Rule A: x'' @ [newline] @ ''  detail a'' @ [newline] @ ''Rule B: y'' @ [newline]
     @ ''  detail b''"

definition preamble_log :: string where
  "preamble_log =
     ''Wed Nov  4 10:00:00 2026: Falco initialized'' @ [newline] @ ''  custom rules'' @ [newline]
     @ ''Rule A: x'' @ [newline] @ ''  detail a'' @ [newline]
     @ ''Wed Nov  4 10:00:01 2026: Loading rules'' @ [newline]
     @ ''Rule B: y'' @ [newline] @ ''  detail b''"

section \<open>Properties of the log classifier\<close>

lemma strip_no_outer_space: "no_outer_space (strip s)"
proof -
  let ?t = "dropWhile is_space s"
  let ?r = "dropWhile is_space (rev ?t)"
  have split: "?t = rev ?r @ rev (takeWhile is_space (rev ?t))"
    by (metis rev_append rev_rev_ident takeWhile_dropWhile_id)
  show ?thesis
  proof (cases "?r = []")
    case True
    then show ?thesis by (simp add: no_outer_space_def strip_def rstrip_def lstrip_def)
  next
    case False
    have last_ok: "\<not> is_space (hd ?r)" using False hd_dropWhile by blast
    have tne: "?t \<noteq> []"
      using False by (metis dropWhile.simps(1) rev.simps(1))
    have "\<not> is_space (hd ?t)" using tne hd_dropWhile by blast
    moreover have "hd ?t = hd (rev ?r)" using split False by (metis hd_append2 rev_is_Nil_conv)
    moreover have "last (rev ?r) = hd ?r" using False by (simp add: last_rev)
    ultimately show ?thesis using last_ok False
      by (simp add: no_outer_space_def strip_def rstrip_def lstrip_def)
  qed
qed

lemma classify_lines_Cons:
  "classify_lines dp st (line # lines) = classify_lines dp (classify_line dp st line) lines"
  by (simp add: classify_lines_def)

lemma classify_line_date:
  "startswith line dp \<Longrightarrow> classify_line dp st line = st"
  by (cases st) (simp add: classify_line_def)

lemma classify_line_rule:
  "is_rule_line dp line \<Longrightarrow>
     classify_line dp (warning, logged) line = ('' '' @ strip line, logged @ flush warning)"
  by (simp add: classify_line_def is_rule_line_def flush_def Let_def)

lemma classify_line_other:
  "\<not> startswith line dp \<Longrightarrow> \<not> is_rule_line dp line \<Longrightarrow>
     classify_line dp (warning, logged) line = (warning @ '' '' @ strip line, logged)"
  by (simp add: classify_line_def is_rule_line_def Let_def)

text \<open>
  The state of the loop after any lines: the warning under construction is the text of the
  last block, and the logger has received the text before the first rule line (if there
  is any) and every block but the last.
\<close>

lemma classify_lines_blocks:
  "classify_lines dp (warning, logged) lines =
     (case split_blocks dp lines of
        (pre, blocks) \<Rightarrow>
          if blocks = [] then (warning @ joined dp pre, logged)
          else (joined dp (last blocks),
                logged @ flush (warning @ joined dp pre)
                  @ map (\<lambda>b. strip (joined dp b)) (butlast blocks)))"
proof (induction lines arbitrary: warning logged)
  case Nil
  then show ?case by (simp add: classify_lines_def)
next
  case (Cons line lines)
  obtain pre blocks where sb: "split_blocks dp lines = (pre, blocks)"
    by (cases "split_blocks dp lines")
  show ?case
  proof (cases "startswith line dp")
    case True
    then have "\<not> is_rule_line dp line" by (simp add: is_rule_line_def)
    then show ?thesis using True Cons.IH [of warning logged] sb
      by (simp add: classify_lines_Cons classify_line_date)
  next
    case nd: False
    show ?thesis
    proof (cases "is_rule_line dp line")
      case True
      show ?thesis
        unfolding classify_lines_Cons classify_line_rule [OF True]
          Cons.IH [of "'' '' @ strip line" "logged @ flush warning"]
        using True sb nd by (simp add: flush_def)
    next
      case False
      then show ?thesis using nd Cons.IH [of "warning @ '' '' @ strip line" logged] sb
        by (simp add: classify_lines_Cons classify_line_other)
    qed
  qed
qed

lemma split_blocks_concat:
  "split_blocks dp lines = (pre, blocks) \<Longrightarrow> pre @ concat blocks = lines"
  by (induction lines arbitrary: pre blocks) (auto split: prod.splits if_splits)

lemma split_blocks_pre:
  "split_blocks dp lines = (pre, blocks) \<Longrightarrow> \<forall>l\<in>set pre. \<not> is_rule_line dp l"
  by (induction lines arbitrary: pre blocks) (auto split: prod.splits if_splits)

lemma split_blocks_block:
  "split_blocks dp lines = (pre, blocks) \<Longrightarrow>
     \<forall>b\<in>set blocks. b \<noteq> [] \<and> is_rule_line dp (hd b) \<and> (\<forall>l\<in>set (tl b). \<not> is_rule_line dp l)"
proof (induction lines arbitrary: pre blocks)
  case Nil
  then show ?case by simp
next
  case (Cons line lines)
  obtain pre' blocks' where sb: "split_blocks dp lines = (pre', blocks')"
    by (cases "split_blocks dp lines")
  from Cons.IH [OF sb] split_blocks_pre [OF sb] Cons.prems sb show ?case
    by (auto split: if_splits)
qed

lemma classify_line_no_outer_space:
  "\<forall>w\<in>set (snd st). no_outer_space w \<Longrightarrow>
     \<forall>w\<in>set (snd (classify_line dp st line)). no_outer_space w"
  by (cases st) (auto simp: classify_line_def Let_def strip_no_outer_space)

lemma classify_lines_no_outer_space:
  "\<forall>w\<in>set (snd st). no_outer_space w \<Longrightarrow>
     \<forall>w\<in>set (snd (classify_lines dp st lines)). no_outer_space w"
proof (induction lines arbitrary: st)
  case Nil
  then show ?case by (simp add: classify_lines_def)
next
  case (Cons line lines)
  show ?case unfolding classify_lines_Cons
    by (rule Cons.IH) (rule classify_line_no_outer_space [OF Cons.prems])
qed

text \<open>A log in which no stripped line starts a rule produces no warning.\<close>

lemma no_rule_line_no_warning:
  assumes "\<forall>l\<in>set (split_nl logs). \<not> startswith (strip l) ''Rule ''"
  shows "parse_log_and_show_dagda_warnings d logs = []"
proof -
  have "snd (classify_lines dp st lines) = snd st"
    if "\<forall>l\<in>set lines. \<not> startswith (strip l) ''Rule ''" for dp st lines
    using that
  proof (induction lines arbitrary: st)
    case Nil
    then show ?case by (simp add: classify_lines_def)
  next
    case (Cons line lines)
    have "snd (classify_line dp st line) = snd st"
      using Cons.prems by (cases st) (simp add: classify_line_def Let_def)
    then show ?case using Cons by (simp add: classify_lines_Cons)
  qed
  with assms show ?thesis by (simp add: parse_log_and_show_dagda_warnings_def)
qed

lemmas classifier_eval =
  parse_log_and_show_dagda_warnings_def classify_lines_def classify_line_def date_prefix_def
  newline_def startswith_def strip_def lstrip_def rstrip_def is_space_def Let_def

text \<open>
  C2. A log made of two rule blocks, each a line starting with \<^verbatim>\<open>Rule\<close> followed by a
  continuation line, and nothing else: the classifier hands exactly one warning to the
  logger, the first block. The second block is still under construction when the loop
  ends and is never logged.
\<close>

theorem two_rule_blocks_one_warning:
  "parse_log_and_show_dagda_warnings Wednesday two_rules_log = [''Rule A: x detail a'']"
  by (simp add: classifier_eval two_rules_log_def)

text \<open>
  C5, as the claim states it, fails: a line that begins with the date prefix is not added
  to the warning under construction.
\<close>

theorem date_line_not_accumulated:
  "fst (classify_line (date_prefix Wednesday) ('' Rule A: x'', [])
          ''Wed Nov  4 10:00:01 2026: Loading rules'')
     \<noteq> '' Rule A: x'' @ '' '' @ ''Wed Nov  4 10:00:01 2026: Loading rules''"
  by (simp add: classifier_eval)

text \<open>
  C5, amended. A line that begins with the current weekday's three-letter abbreviation
  followed by a space is skipped: it leaves both the warning under construction and the
  warnings already logged as they are, so it is not part of any warning and it neither
  starts nor flushes one.
\<close>

theorem date_line_skipped:
  "startswith line (date_prefix d) \<Longrightarrow>
     classify_line (date_prefix d) (warning, logged) line = (warning, logged)"
  by (rule classify_line_date)

theorem date_line_skipped_witness:
  "startswith ''Wed Nov  4 10:00:01 2026: Loading rules'' (date_prefix Wednesday)
   \<and> classify_line (date_prefix Wednesday) ('' Rule A: x'', [''custom rules''])
        ''Wed Nov  4 10:00:01 2026: Loading rules''
       = ('' Rule A: x'', [''custom rules''])"
proof -
  have h: "startswith ''Wed Nov  4 10:00:01 2026: Loading rules'' (date_prefix Wednesday)"
    by (simp add: startswith_def date_prefix_def)
  from h date_line_skipped [OF h, of "'' Rule A: x''" "[''custom rules'']"]
  show ?thesis by simp
qed

text \<open>
  C10. Every warning handed to the logger has no whitespace at either end. The lines of
  the log are cut, in their order, into the lines before the first rule line and one block
  for each rule line; the warnings are the stripped text of the lines before the first
  rule line (when a rule line follows and that text is not empty) and of every block but
  the last, in the order of the blocks, which is the order of their rule lines in the log.
\<close>

theorem warnings_stripped_in_order:
  "(\<forall>w\<in>set (parse_log_and_show_dagda_warnings d logs). no_outer_space w)
   \<and> (case split_blocks (date_prefix d) (split_nl logs) of
        (pre, blocks) \<Rightarrow>
          pre @ concat blocks = split_nl logs
          \<and> (\<forall>l\<in>set pre. \<not> is_rule_line (date_prefix d) l)
          \<and> (\<forall>b\<in>set blocks. b \<noteq> [] \<and> is_rule_line (date_prefix d) (hd b)
                \<and> (\<forall>l\<in>set (tl b). \<not> is_rule_line (date_prefix d) l))
          \<and> parse_log_and_show_dagda_warnings d logs =
              (if blocks = [] then []
               else flush (joined (date_prefix d) pre)
                    @ map (\<lambda>b. strip (joined (date_prefix d) b)) (butlast blocks)))"
proof -
  obtain pre blocks where sb: "split_blocks (date_prefix d) (split_nl logs) = (pre, blocks)"
    by (cases "split_blocks (date_prefix d) (split_nl logs)")
  have stripped: "\<forall>w\<in>set (parse_log_and_show_dagda_warnings d logs). no_outer_space w"
    unfolding parse_log_and_show_dagda_warnings_def
    by (rule classify_lines_no_outer_space) simp
  have "parse_log_and_show_dagda_warnings d logs =
          (if blocks = [] then []
           else flush (joined (date_prefix d) pre)
                @ map (\<lambda>b. strip (joined (date_prefix d) b)) (butlast blocks))"
    using sb by (simp add: parse_log_and_show_dagda_warnings_def classify_lines_blocks)
  with stripped split_blocks_concat [OF sb] split_blocks_pre [OF sb] split_blocks_block [OF sb]
  show ?thesis unfolding sb by simp
qed

theorem warnings_stripped_in_order_witness:
  "parse_log_and_show_dagda_warnings Wednesday preamble_log = [''custom rules'', ''Rule A: x detail a'']
   \<and> no_outer_space ''custom rules'' \<and> no_outer_space ''Rule A: x detail a''
   \<and> split_blocks (date_prefix Wednesday) (split_nl preamble_log) =
       ([''Wed Nov  4 10:00:00 2026: Falco initialized'', ''  custom rules''],
        [[''Rule A: x'', ''  detail a'', ''Wed Nov  4 10:00:01 2026: Loading rules''],
         [''Rule B: y'', ''  detail b'']])"
proof -
  have sb: "split_blocks (date_prefix Wednesday) (split_nl preamble_log) =
       ([''Wed Nov  4 10:00:00 2026: Falco initialized'', ''  custom rules''],
        [[''Rule A: x'', ''  detail a'', ''Wed Nov  4 10:00:01 2026: Loading rules''],
         [''Rule B: y'', ''  detail b'']])"
    by (simp add: preamble_log_def is_rule_line_def classifier_eval)
  from warnings_stripped_in_order [of Wednesday preamble_log]
  have "parse_log_and_show_dagda_warnings Wednesday preamble_log =
          flush (joined (date_prefix Wednesday)
                   [''Wed Nov  4 10:00:00 2026: Falco initialized'', ''  custom rules''])
          @ [strip (joined (date_prefix Wednesday)
                      [''Rule A: x'', ''  detail a'', ''Wed Nov  4 10:00:01 2026: Loading rules''])]"
    and ns: "\<forall>w\<in>set (parse_log_and_show_dagda_warnings Wednesday preamble_log). no_outer_space w"
    unfolding sb by simp_all
  then have ws: "parse_log_and_show_dagda_warnings Wednesday preamble_log =
                   [''custom rules'', ''Rule A: x detail a'']"
    by (simp add: flush_def classifier_eval)
  from ns ws sb show ?thesis by simp
qed

section \<open>Properties of the tailing loop\<close>

subsection \<open>One record\<close>

lemma process_line_host:
  assumes "utf8_decode lib line = Some decoded"
    and "json_loads lib (remove_char newline decoded) = Some (JDict obj)"
    and "map_of obj ''output_fields'' = Some (JDict flds)"
    and "map_of flds ''container.id'' = Some (JString ''host'')"
  shows "process_line lib line = Inr None"
  using assms by (simp add: process_line_def process_record_def bind_err_def)

lemma process_line_event:
  assumes "utf8_decode lib line = Some decoded"
    and "json_loads lib (remove_char newline decoded) = Some (JDict obj)"
    and "map_of obj ''output_fields'' = Some (JDict flds)"
    and "map_of flds ''container.id'' = Some cid"
    and "cid \<noteq> JString ''host''"
    and "map_of flds ''container.image.repository'' = Some (JString repository)"
    and "map_of flds ''container.image.tag'' = map_option JString tag"
    and "map_of obj ''output'' = Some outp"
    and "map_of obj ''priority'' = Some prio"
    and "map_of obj ''rule'' = Some rl"
    and "map_of obj ''time'' = Some tm"
  shows "process_line lib line = Inr (Some (sensor_event cid repository tag outp prio rl tm))"
  using assms
  by (cases tag)
     (simp_all add: process_line_def process_record_def bind_err_def build_event_def
        image_name_of_def sensor_event_def)

lemma process_line_incomplete:
  assumes "utf8_decode lib line = Some decoded"
    and "json_loads lib (remove_char newline decoded) = Some (JDict obj)"
    and "map_of obj ''output_fields'' = Some (JDict flds)"
    and "map_of flds ''container.id'' = Some cid"
    and "map_of flds ''container.image.repository'' = map_option JString repository"
    and "map_of flds ''container.image.tag'' = map_option JString tag"
    and "repository = None \<or> map_of obj ''output'' = None \<or> map_of obj ''priority'' = None
         \<or> map_of obj ''rule'' = None \<or> map_of obj ''time'' = None"
  shows "process_line lib line = Inr None"
  using assms
  by (cases repository; cases tag)
     (auto simp add: process_line_def process_record_def bind_err_def build_event_def
        image_name_of_def split: option.splits)

subsection \<open>The lines of one read\<close>

lemma process_lines_append:
  "process_lines lib (xs @ ys) evs =
     (case process_lines lib xs evs of Inl e \<Rightarrow> Inl e | Inr evs' \<Rightarrow> process_lines lib ys evs')"
  by (induction xs arbitrary: evs) (auto split: sum.splits option.splits)

lemma process_lines_skip:
  assumes "process_line lib line = Inr None"
  shows "process_lines lib (xs @ line # ys) evs = process_lines lib (xs @ ys) evs"
  using assms by (simp add: process_lines_append split: sum.splits)

lemma tail_cycle_unfold:
  "tail_cycle w n pos s =
     (case process_lines (library w) (readlines (drop pos (output_file w n))) [] of
        Inl e \<Rightarrow> (Inl e, s\<lparr>trace := trace s @ [SeekReadlinesTell pos]\<rparr>)
      | Inr evs \<Rightarrow>
          (Inr (pos + length (drop pos (output_file w n))),
           s\<lparr>trace := trace s @ SeekReadlinesTell pos #
                (if evs \<noteq> [] then [BulkInsertSysdigFalcoEvents evs] else []) @ [Sleep 2]\<rparr>))"
  by (simp add: tail_cycle_def bind_prog_def act_def ret_def raise_def split: sum.splits)

subsection \<open>The example file\<close>

lemma decode_scenario_line:
  "utf8_decode example_lib (scenario_line @ [newline]) = Some (scenario_line @ [newline])"
  by (simp add: example_lib_def ascii_decode_def scenario_line_def newline_def)

lemma loads_scenario_line:
  "json_loads example_lib (remove_char newline (scenario_line @ [newline])) = Some scenario_record"
proof -
  have "remove_char newline (scenario_line @ [newline]) = scenario_line"
    by (simp add: remove_char_def scenario_line_def newline_def)
  then show ?thesis by (simp add: example_lib_def example_loads_def)
qed

lemma decode_host_line:
  "utf8_decode example_lib (host_line @ [newline]) = Some (host_line @ [newline])"
  by (simp add: example_lib_def ascii_decode_def host_line_def newline_def)

lemma loads_host_line:
  "json_loads example_lib (remove_char newline (host_line @ [newline])) = Some host_record"
proof -
  have "remove_char newline (host_line @ [newline]) = host_line"
    by (simp add: remove_char_def host_line_def newline_def)
  moreover have "host_line \<noteq> scenario_line"
    by (simp add: host_line_def scenario_line_def)
  ultimately show ?thesis by (simp add: example_lib_def example_loads_def)
qed

lemma decode_ancient_line:
  "utf8_decode example_lib (ancient_line @ [newline]) = Some (ancient_line @ [newline])"
  by (simp add: example_lib_def ascii_decode_def ancient_line_def newline_def)

lemma loads_ancient_line:
  "json_loads example_lib (remove_char newline (ancient_line @ [newline])) = Some ancient_record"
proof -
  have "remove_char newline (ancient_line @ [newline]) = ancient_line"
    by (simp add: remove_char_def ancient_line_def newline_def)
  moreover have "ancient_line \<noteq> scenario_line" "ancient_line \<noteq> host_line"
    by (simp_all add: ancient_line_def host_line_def scenario_line_def)
  ultimately show ?thesis by (simp add: example_lib_def example_loads_def)
qed

lemma decode_truncated_line:
  "utf8_decode example_lib (truncated_line @ [newline]) = Some (truncated_line @ [newline])"
  by (simp add: example_lib_def ascii_decode_def truncated_line_def newline_def)

lemma loads_truncated_line:
  "json_loads example_lib (remove_char newline (truncated_line @ [newline])) = None"
proof -
  have "remove_char newline (truncated_line @ [newline]) = truncated_line"
    by (simp add: remove_char_def truncated_line_def newline_def)
  moreover have "truncated_line \<noteq> scenario_line" "truncated_line \<noteq> host_line"
    "truncated_line \<noteq> ancient_line"
    by (simp_all add: truncated_line_def ancient_line_def host_line_def scenario_line_def)
  ultimately show ?thesis by (simp add: example_lib_def example_loads_def)
qed

lemma scenario_record_event:
  "process_line example_lib (scenario_line @ [newline]) = Inr (Some scenario_event)"
  by (simp add: process_line_def decode_scenario_line loads_scenario_line scenario_record_def
        process_record_def bind_err_def build_event_def image_name_of_def scenario_event_def)

lemma host_record_skipped:
  "process_line example_lib (host_line @ [newline]) = Inr None"
  by (simp add: process_line_def decode_host_line loads_host_line host_record_def
        process_record_def bind_err_def)

lemma readlines_two:
  "newline \<notin> set a \<Longrightarrow> newline \<notin> set b \<Longrightarrow>
     readlines (a @ [newline] @ b @ [newline]) = [a @ [newline], b @ [newline]]"
proof -
  have one: "readlines (x @ [newline] @ rest) = (x @ [newline]) # readlines rest"
    if "newline \<notin> set x" for x rest
    using that by (induction x) auto
  assume "newline \<notin> set a" "newline \<notin> set b"
  then show ?thesis using one [of a "b @ [newline]"] one [of b "[]"] by simp
qed

lemma no_newline_in_lines:
  "newline \<notin> set scenario_line" "newline \<notin> set host_line" "newline \<notin> set ancient_line"
  "newline \<notin> set truncated_line"
  by (simp_all add: scenario_line_def host_line_def ancient_line_def truncated_line_def newline_def)

lemma example_file_lines:
  "readlines (output_file example_world n) = [scenario_line @ [newline], host_line @ [newline]]"
  using readlines_two [OF no_newline_in_lines(1) no_newline_in_lines(2)]
  by (simp add: example_world_def)

lemma example_file_length: "length (output_file example_world n) = 264"
  by (simp add: example_world_def scenario_line_def host_line_def)

lemma example_world_library: "library example_world = example_lib"
  by (simp add: example_world_def)

text \<open>
  The first read of the example file: the record of the container is forwarded with the
  image name \<^verbatim>\<open>nginx:1.21\<close>, the record of the host is not.
\<close>

lemma example_first_cycle:
  "tail_cycle example_world 0 0 initial_state =
     (Inr 264, initial_state\<lparr>trace := [SeekReadlinesTell 0,
                                        BulkInsertSysdigFalcoEvents [scenario_event], Sleep 2]\<rparr>)"
  by (simp add: tail_cycle_unfold example_file_lines example_file_length example_world_library
        scenario_record_event host_record_skipped initial_state_def)

lemma ancient_record_skipped:
  "process_line example_lib (ancient_line @ [newline]) = Inr None"
  by (simp add: process_line_def decode_ancient_line loads_ancient_line ancient_record_def
        process_record_def bind_err_def build_event_def image_name_of_def)

lemma truncated_line_raises:
  "process_line example_lib (truncated_line @ [newline]) = Inl JSONDecodeError"
  by (simp add: process_line_def decode_truncated_line loads_truncated_line)

lemma ancient_file_lines:
  "readlines (output_file ancient_world n) = [ancient_line @ [newline], scenario_line @ [newline]]"
  using readlines_two [OF no_newline_in_lines(3) no_newline_in_lines(1)]
  by (simp add: ancient_world_def example_world_def)

lemma truncated_file_lines:
  "readlines (output_file truncated_world n) = [truncated_line @ [newline], scenario_line @ [newline]]"
  using readlines_two [OF no_newline_in_lines(4) no_newline_in_lines(1)]
  by (simp add: truncated_world_def example_world_def)

lemma other_world_library:
  "library ancient_world = example_lib" "library truncated_world = example_lib"
  by (simp_all add: ancient_world_def truncated_world_def example_world_def)

lemma initial_state_eq: "initial_state = \<lparr>trace = [], running_container_id = []\<rparr>"
  by (simp add: initial_state_def)

subsection \<open>Malformed lines\<close>

text \<open>
  The container id is read before the \<^verbatim>\<open>try\<close> block: a record without
  \<^verbatim>\<open>output_fields\<close>, or whose \<^verbatim>\<open>output_fields\<close> have no \<^verbatim>\<open>container.id\<close>, raises
  \<^verbatim>\<open>KeyError\<close>, and a JSON value that is not an object raises \<^verbatim>\<open>TypeError\<close>.
\<close>

lemma record_without_container_id_raises:
  "process_record (JDict [(''output'', JString ''X'')]) = Inl (KeyError ''output_fields'')"
  "process_record (JDict [(''output_fields'', JDict [])]) = Inl (KeyError ''container.id'')"
  "process_record (JList []) = Inl TypeError"
  by (simp_all add: process_record_def bind_err_def)

text \<open>
  C1, as the claim states it, fails: a line that is not valid JSON (here a line cut in the
  middle of a write, followed by a complete record) makes \<^verbatim>\<open>json.loads\<close> raise; nothing
  catches the exception, so the loop ends at its first turn, before anything is forwarded.
\<close>

theorem truncated_line_ends_loop:
  "tail_loop truncated_world 2 0 0 initial_state =
     (Inl JSONDecodeError, initial_state\<lparr>trace := [SeekReadlinesTell 0]\<rparr>)"
  by (simp add: numeral_2_eq_2 bind_prog_def tail_cycle_unfold truncated_file_lines
        other_world_library truncated_line_raises initial_state_eq)

text \<open>
  C1, amended. A line that is decoded and parsed to a JSON object that has
  \<^verbatim>\<open>output_fields\<close> with a \<^verbatim>\<open>container.id\<close>, whose repository and tag are strings when
  present, and that lacks one of \<^verbatim>\<open>container.image.repository\<close>, \<^verbatim>\<open>output\<close>,
  \<^verbatim>\<open>priority\<close>, \<^verbatim>\<open>rule\<close> and \<^verbatim>\<open>time\<close>: processing it raises nothing and produces no
  event; the other lines of the read are processed as if the line were not there; and
  when they raise nothing, the turn of the loop ends with the position at the end of what
  was read, so that the next turn goes on behind the line.
\<close>

theorem incomplete_record_skipped:
  assumes "utf8_decode (library w) line = Some decoded"
    and "json_loads (library w) (remove_char newline decoded) = Some (JDict obj)"
    and "map_of obj ''output_fields'' = Some (JDict flds)"
    and "map_of flds ''container.id'' = Some cid"
    and "map_of flds ''container.image.repository'' = map_option JString repository"
    and "map_of flds ''container.image.tag'' = map_option JString tag"
    and "repository = None \<or> map_of obj ''output'' = None \<or> map_of obj ''priority'' = None
         \<or> map_of obj ''rule'' = None \<or> map_of obj ''time'' = None"
  shows "process_line (library w) line = Inr None
     \<and> process_lines (library w) (before @ line # after) evs
         = process_lines (library w) (before @ after) evs
     \<and> (readlines (drop pos (output_file w n)) = before @ line # after
          \<and> process_lines (library w) (before @ after) [] = Inr evs'
        \<longrightarrow> tail_cycle w n pos s =
              (Inr (pos + length (drop pos (output_file w n))),
               s\<lparr>trace := trace s @ SeekReadlinesTell pos #
                    (if evs' \<noteq> [] then [BulkInsertSysdigFalcoEvents evs'] else [])
                    @ [Sleep 2]\<rparr>))"
proof -
  have skip: "process_line (library w) line = Inr None"
    using assms by (rule process_line_incomplete)
  have same: "process_lines (library w) (xs @ line # ys) acc = process_lines (library w) (xs @ ys) acc"
    for xs ys acc
    using skip by (rule process_lines_skip)
  show ?thesis using skip same by (simp add: tail_cycle_unfold)
qed

theorem incomplete_record_skipped_witness:
  "process_line (library ancient_world) (ancient_line @ [newline]) = Inr None
   \<and> tail_cycle ancient_world 0 0 initial_state =
       (Inr 256, initial_state\<lparr>trace := [SeekReadlinesTell 0,
                                          BulkInsertSysdigFalcoEvents [scenario_event],
                                          Sleep 2]\<rparr>)"
proof -
  have rest: "process_lines (library ancient_world) ([] @ [scenario_line @ [newline]]) []
                = Inr [scenario_event]"
    by (simp add: other_world_library scenario_record_event)
  have len: "length (output_file ancient_world 0) = 256"
    by (simp add: ancient_world_def example_world_def ancient_line_def scenario_line_def)
  have "process_line (library ancient_world) (ancient_line @ [newline]) = Inr None
     \<and> process_lines (library ancient_world) ([] @ (ancient_line @ [newline]) # [scenario_line @ [newline]]) []
         = process_lines (library ancient_world) ([] @ [scenario_line @ [newline]]) []
     \<and> (readlines (drop 0 (output_file ancient_world 0))
           = [] @ (ancient_line @ [newline]) # [scenario_line @ [newline]]
          \<and> process_lines (library ancient_world) ([] @ [scenario_line @ [newline]]) []
              = Inr [scenario_event]
        \<longrightarrow> tail_cycle ancient_world 0 0 initial_state =
              (Inr (0 + length (drop 0 (output_file ancient_world 0))),
               initial_state\<lparr>trace := trace initial_state @ SeekReadlinesTell 0 #
                    (if [scenario_event] \<noteq> [] then [BulkInsertSysdigFalcoEvents [scenario_event]] else [])
                    @ [Sleep 2]\<rparr>))"
    by (rule incomplete_record_skipped
          [where decoded = "ancient_line @ [newline]"
             and obj = "[(''output_fields'',
                          JDict [(''container.id'', JString ''abc''),
                                 (''container.image.repository'', JString ''nginx'')]),
                         (''output'', JString ''Z'')]"
             and flds = "[(''container.id'', JString ''abc''),
                          (''container.image.repository'', JString ''nginx'')]"
             and cid = "JString ''abc''" and repository = "Some ''nginx''" and tag = None])
       (simp_all add: other_world_library decode_ancient_line loads_ancient_line ancient_record_def)
  with rest len show ?thesis
    by (simp add: ancient_file_lines initial_state_eq)
qed

subsection \<open>Records of containers\<close>

text \<open>
  The events of a read are appended to the events collected before it.
\<close>

lemma process_lines_acc:
  "process_lines lib ls evs =
     (case process_lines lib ls [] of Inl e \<Rightarrow> Inl e | Inr es \<Rightarrow> Inr (evs @ es))"
proof (induction ls arbitrary: evs)
  case Nil
  then show ?case by simp
next
  case (Cons l ls)
  show ?case
  proof (cases "process_line lib l")
    case (Inl e)
    then show ?thesis by simp
  next
    case (Inr r)
    show ?thesis
    proof (cases r)
      case None
      with Inr show ?thesis using Cons.IH [of evs] by simp
    next
      case (Some ev)
      with Inr show ?thesis using Cons.IH [of "evs @ [ev]"] Cons.IH [of "[ev]"]
        by (simp split: sum.splits)
    qed
  qed
qed

lemma process_lines_event:
  assumes "process_line lib line = Inr (Some ev)"
  shows "process_lines lib (before @ line # after) evs =
           (case process_lines lib before evs of
              Inl e \<Rightarrow> Inl e
            | Inr evs' \<Rightarrow> process_lines lib after (evs' @ [ev]))"
  using assms by (simp add: process_lines_append split: sum.splits)

text \<open>
  C3. A line that is decoded and parsed to a JSON object with all required fields, whose
  \<^verbatim>\<open>output_fields\<close> hold a \<^verbatim>\<open>container.id\<close> other than \<^verbatim>\<open>host\<close>, a repository and
  possibly a tag (both strings): processing it produces exactly one event, with the
  container id, the output, the priority, the rule and the time of the record; its image
  name is the repository followed by a colon and the tag when the record has a tag, and
  the repository alone when it has none. Wherever the line stands in a read, and whatever
  was collected before, its event is appended behind the events of the lines before it
  and before the events of the lines after it.
\<close>

theorem well_formed_record_event:
  fixes cid outp prio rl tm :: json and repository :: string and tag :: "string option"
  defines "ev \<equiv> \<lparr> ev_container_id = cid,
                    ev_image_name = JString (case tag of None \<Rightarrow> repository
                                             | Some t \<Rightarrow> repository @ '':'' @ t),
                    ev_output = outp, ev_priority = prio, ev_rule = rl, ev_time = tm \<rparr>"
  assumes "utf8_decode lib line = Some decoded"
    and "json_loads lib (remove_char newline decoded) = Some (JDict obj)"
    and "map_of obj ''output_fields'' = Some (JDict flds)"
    and "map_of flds ''container.id'' = Some cid"
    and "cid \<noteq> JString ''host''"
    and "map_of flds ''container.image.repository'' = Some (JString repository)"
    and "map_of flds ''container.image.tag'' = map_option JString tag"
    and "map_of obj ''output'' = Some outp"
    and "map_of obj ''priority'' = Some prio"
    and "map_of obj ''rule'' = Some rl"
    and "map_of obj ''time'' = Some tm"
  shows "process_line lib line = Inr (Some ev)
     \<and> process_lines lib [line] [] = Inr [ev]
     \<and> process_lines lib (before @ line # after) evs =
         (case process_lines lib before evs of
            Inl e \<Rightarrow> Inl e
          | Inr evs' \<Rightarrow> process_lines lib after (evs' @ [ev]))
     \<and> (process_lines lib before [] = Inr events_before
          \<and> process_lines lib after [] = Inr events_after
        \<longrightarrow> process_lines lib (before @ line # after) evs
              = Inr (evs @ events_before @ ev # events_after))"
proof -
  have one: "process_line lib line = Inr (Some ev)"
    using process_line_event [OF assms(2-12)] by (simp add: sensor_event_def ev_def)
  have at: "process_lines lib (before @ line # after) evs =
         (case process_lines lib before evs of
            Inl e \<Rightarrow> Inl e
          | Inr evs' \<Rightarrow> process_lines lib after (evs' @ [ev]))"
    using one by (rule process_lines_event)
  have "process_lines lib (before @ line # after) evs
          = Inr (evs @ events_before @ ev # events_after)"
    if b: "process_lines lib before [] = Inr events_before"
      and a: "process_lines lib after [] = Inr events_after"
  proof -
    have "process_lines lib before evs = Inr (evs @ events_before)"
      using b process_lines_acc [of lib before evs] by simp
    moreover have "process_lines lib after ((evs @ events_before) @ [ev])
                     = Inr (((evs @ events_before) @ [ev]) @ events_after)"
      using a process_lines_acc [of lib after "(evs @ events_before) @ [ev]"] by simp
    ultimately show ?thesis using at by simp
  qed
  with one at show ?thesis by simp
qed

theorem well_formed_record_event_witness:
  "process_line example_lib (scenario_line @ [newline]) =
     Inr (Some \<lparr> ev_container_id = JString ''abc'', ev_image_name = JString ''nginx:1.21'',
                 ev_output = JString ''X'', ev_priority = JString ''WARNING'',
                 ev_rule = JString ''R1'', ev_time = JString ''t1'' \<rparr>)
   \<and> process_lines example_lib [scenario_line @ [newline]] [] =
     Inr [\<lparr> ev_container_id = JString ''abc'', ev_image_name = JString ''nginx:1.21'',
            ev_output = JString ''X'', ev_priority = JString ''WARNING'',
            ev_rule = JString ''R1'', ev_time = JString ''t1'' \<rparr>]
   \<and> process_lines example_lib [host_line @ [newline]] [] = Inr []
   \<and> process_lines example_lib [scenario_line @ [newline]] [] = Inr [scenario_event]
   \<and> process_lines example_lib
        ([host_line @ [newline]] @ (scenario_line @ [newline]) # [scenario_line @ [newline]])
        [scenario_event]
       = Inr [scenario_event, scenario_event, scenario_event]"
proof -
  let ?ev = "\<lparr> ev_container_id = JString ''abc'',
                ev_image_name = JString (case Some ''1.21'' of None \<Rightarrow> ''nginx''
                                         | Some t \<Rightarrow> ''nginx'' @ '':'' @ t),
                ev_output = JString ''X'', ev_priority = JString ''WARNING'',
                ev_rule = JString ''R1'', ev_time = JString ''t1'' \<rparr>"
  have b: "process_lines example_lib [host_line @ [newline]] [] = Inr []"
    by (simp add: host_record_skipped)
  have a: "process_lines example_lib [scenario_line @ [newline]] [] = Inr [scenario_event]"
    by (simp add: scenario_record_event)
  have "process_line example_lib (scenario_line @ [newline]) = Inr (Some ?ev)
     \<and> process_lines example_lib [scenario_line @ [newline]] [] = Inr [?ev]
     \<and> process_lines example_lib
          ([host_line @ [newline]] @ (scenario_line @ [newline]) # [scenario_line @ [newline]])
          [scenario_event] =
         (case process_lines example_lib [host_line @ [newline]] [scenario_event] of
            Inl e \<Rightarrow> Inl e
          | Inr evs' \<Rightarrow> process_lines example_lib [scenario_line @ [newline]] (evs' @ [?ev]))
     \<and> (process_lines example_lib [host_line @ [newline]] [] = Inr []
          \<and> process_lines example_lib [scenario_line @ [newline]] [] = Inr [scenario_event]
        \<longrightarrow> process_lines example_lib
              ([host_line @ [newline]] @ (scenario_line @ [newline]) # [scenario_line @ [newline]])
              [scenario_event]
              = Inr ([scenario_event] @ [] @ ?ev # [scenario_event]))"
    by (rule well_formed_record_event
          [where decoded = "scenario_line @ [newline]"
             and obj = "[(''output_fields'',
                          JDict [(''container.id'', JString ''abc''),
                                 (''container.image.repository'', JString ''nginx''),
                                 (''container.image.tag'', JString ''1.21'')]),
                         (''output'', JString ''X''), (''priority'', JString ''WARNING''),
                         (''rule'', JString ''R1''), (''time'', JString ''t1'')]"
             and flds = "[(''container.id'', JString ''abc''),
                          (''container.image.repository'', JString ''nginx''),
                          (''container.image.tag'', JString ''1.21'')]"])
       (simp_all add: decode_scenario_line loads_scenario_line scenario_record_def)
  then have one: "process_line example_lib (scenario_line @ [newline]) = Inr (Some ?ev)"
    and alone: "process_lines example_lib [scenario_line @ [newline]] [] = Inr [?ev]"
    and placed: "process_lines example_lib
              ([host_line @ [newline]] @ (scenario_line @ [newline]) # [scenario_line @ [newline]])
              [scenario_event]
              = Inr ([scenario_event] @ [] @ ?ev # [scenario_event])"
    using a b by blast+
  from one alone placed a b show ?thesis
    by (simp add: scenario_event_def del: process_lines.simps)
qed

subsection \<open>Records of the host\<close>

text \<open>
  C4. A line that is decoded and parsed to a JSON object whose \<^verbatim>\<open>output_fields\<close> hold the
  \<^verbatim>\<open>container.id\<close> \<^verbatim>\<open>host\<close>: processing it produces no event, and the events collected
  from the lines of a read (which are what the turn hands to the event store) are those
  of the other lines.
\<close>

theorem host_record_no_event:
  assumes "utf8_decode lib line = Some decoded"
    and "json_loads lib (remove_char newline decoded) = Some (JDict obj)"
    and "map_of obj ''output_fields'' = Some (JDict flds)"
    and "map_of flds ''container.id'' = Some (JString ''host'')"
  shows "process_line lib line = Inr None
     \<and> process_lines lib (before @ line # after) evs = process_lines lib (before @ after) evs"
  using process_lines_skip [OF process_line_host [OF assms]] process_line_host [OF assms]
  by simp

theorem host_record_no_event_witness:
  "process_line example_lib (host_line @ [newline]) = Inr None
   \<and> process_lines example_lib [scenario_line @ [newline], host_line @ [newline]] []
       = Inr [scenario_event]"
proof -
  have "process_line example_lib (host_line @ [newline]) = Inr None
     \<and> process_lines example_lib ([scenario_line @ [newline]] @ (host_line @ [newline]) # []) []
         = process_lines example_lib ([scenario_line @ [newline]] @ []) []"
    by (rule host_record_no_event
          [where decoded = "host_line @ [newline]"
             and obj = "[(''output_fields'', JDict [(''container.id'', JString ''host'')]),
                         (''output'', JString ''Y''), (''priority'', JString ''NOTICE''),
                         (''rule'', JString ''R2''), (''time'', JString ''t2'')]"
             and flds = "[(''container.id'', JString ''host'')]"])
       (simp_all add: decode_host_line loads_host_line host_record_def)
  then show ?thesis by (simp add: scenario_record_event)
qed

subsection \<open>The position in the file\<close>

lemma tail_cycle_mono: "tail_cycle w n pos s = (Inr pos', s') \<Longrightarrow> pos \<le> pos'"
  by (auto simp: tail_cycle_unfold split: sum.splits)

lemma tail_loop_mono: "tail_loop w k n pos s = (Inr pos', s') \<Longrightarrow> pos \<le> pos'"
proof (induction k arbitrary: n pos s)
  case 0
  then show ?case by (simp add: ret_def)
next
  case (Suc k)
  from Suc.prems obtain p1 s1 where c: "tail_cycle w n pos s = (Inr p1, s1)"
    and l: "tail_loop w k (Suc n) p1 s1 = (Inr pos', s')"
    by (auto simp: bind_prog_def split: prod.splits sum.splits)
  from tail_cycle_mono [OF c] Suc.IH [OF l] show ?case by simp
qed

text \<open>The first \<open>k + j\<close> turns are the first \<open>k\<close> turns followed by \<open>j\<close> more.\<close>

lemma tail_loop_add:
  "tail_loop w (k + j) n pos =
     bind_prog (tail_loop w k n pos) (\<lambda>pos'. tail_loop w j (n + k) pos')"
proof (induction k arbitrary: n pos)
  case 0
  then show ?case by (simp add: bind_prog_def ret_def)
next
  case (Suc k)
  show ?case
    by (rule ext) (simp add: Suc.IH bind_prog_def split: prod.splits sum.splits)
qed

text \<open>
  C9. The position never decreases: not in one turn of the loop, and not from the state
  after \<open>k\<close> turns to the state after \<open>k + j\<close> turns. A turn that finds no byte behind
  the position reads no line, inserts nothing in the event store (it only seeks, reads
  and sleeps) and leaves the position as it is.
\<close>

theorem cursor_never_decreases:
  "(tail_cycle w n pos s = (Inr pos', s') \<longrightarrow> pos \<le> pos')
   \<and> (tail_loop w k n pos s = (Inr pa, sa) \<and> tail_loop w (k + j) n pos s = (Inr pb, sb)
        \<longrightarrow> pos \<le> pa \<and> pa \<le> pb)
   \<and> (length (output_file w n) \<le> pos
        \<longrightarrow> readlines (drop pos (output_file w n)) = []
            \<and> tail_cycle w n pos s =
                (Inr pos, s\<lparr>trace := trace s @ [SeekReadlinesTell pos, Sleep 2]\<rparr>))"
proof -
  have "pa \<le> pb"
    if a: "tail_loop w k n pos s = (Inr pa, sa)" and b: "tail_loop w (k + j) n pos s = (Inr pb, sb)"
  proof -
    from a b have "tail_loop w j (n + k) pa sa = (Inr pb, sb)"
      by (simp add: tail_loop_add bind_prog_def)
    then show ?thesis by (rule tail_loop_mono)
  qed
  moreover have "pos \<le> pa" if "tail_loop w k n pos s = (Inr pa, sa)"
    using that by (rule tail_loop_mono)
  moreover have "pos \<le> pos'" if "tail_cycle w n pos s = (Inr pos', s')"
    using that by (rule tail_cycle_mono)
  moreover have "readlines (drop pos (output_file w n)) = []
      \<and> tail_cycle w n pos s = (Inr pos, s\<lparr>trace := trace s @ [SeekReadlinesTell pos, Sleep 2]\<rparr>)"
    if "length (output_file w n) \<le> pos"
    using that by (simp add: tail_cycle_unfold)
  ultimately show ?thesis by blast
qed

lemma example_idle_cycle:
  "tail_cycle example_world n 264 s =
     (Inr 264, s\<lparr>trace := trace s @ [SeekReadlinesTell 264, Sleep 2]\<rparr>)"
  by (simp add: tail_cycle_unfold example_file_length)

theorem cursor_never_decreases_witness:
  "tail_cycle example_world 0 0 initial_state =
     (Inr 264, initial_state\<lparr>trace := [SeekReadlinesTell 0,
                                        BulkInsertSysdigFalcoEvents [scenario_event], Sleep 2]\<rparr>)
   \<and> tail_loop example_world (Suc 0 + Suc 0) 0 0 initial_state =
     (Inr 264, initial_state\<lparr>trace := [SeekReadlinesTell 0,
                                        BulkInsertSysdigFalcoEvents [scenario_event], Sleep 2,
                                        SeekReadlinesTell 264, Sleep 2]\<rparr>)
   \<and> (0::nat) \<le> 264 \<and> (264::nat) \<le> 264
   \<and> length (output_file example_world 1) \<le> 264
   \<and> readlines (drop 264 (output_file example_world 1)) = []"
proof -
  let ?s1 = "initial_state\<lparr>trace := [SeekReadlinesTell 0,
                BulkInsertSysdigFalcoEvents [scenario_event], Sleep 2]\<rparr>"
  let ?s2 = "initial_state\<lparr>trace := [SeekReadlinesTell 0,
                BulkInsertSysdigFalcoEvents [scenario_event], Sleep 2,
                SeekReadlinesTell 264, Sleep 2]\<rparr>"
  have one: "tail_loop example_world (Suc 0) 0 0 initial_state = (Inr 264, ?s1)"
    by (simp add: bind_prog_def ret_def example_first_cycle)
  have two: "tail_loop example_world (Suc 0 + Suc 0) 0 0 initial_state = (Inr 264, ?s2)"
    by (simp add: bind_prog_def ret_def example_first_cycle example_idle_cycle)
  have len: "length (output_file example_world 1) \<le> 264"
    by (simp add: example_file_length)
  from cursor_never_decreases
         [where w = example_world and n = 0 and pos = 0 and s = initial_state and pos' = 264
            and s' = ?s1 and k = "Suc 0" and pa = 264 and sa = ?s1 and j = "Suc 0"
            and pb = 264 and sb = ?s2]
       cursor_never_decreases
         [where w = example_world and n = 1 and pos = 264 and s = ?s1 and pos' = 264
            and s' = ?s2 and k = 0 and pa = 264 and sa = ?s1 and j = 0
            and pb = 264 and sb = ?s1]
       example_first_cycle one two len
  show ?thesis by simp
qed

section \<open>Properties of the checks before the run\<close>

lemma bind_prog_Inr:
  "bind_prog p f s = (Inr y, s') \<Longrightarrow> \<exists>x sa. p s = (Inr x, sa) \<and> f x sa = (Inr y, s')"
  by (auto simp: bind_prog_def split: prod.splits sum.splits)

lemma prepare_docker_client: "prepare_docker w s = (Inr (), s') \<Longrightarrow> docker_client w"
  by (cases "docker_client w") (simp_all add: prepare_docker_def bind_prog_def act_def raise_def)

lemma preflight_client: "preflight w s = (Inr (), s') \<Longrightarrow> docker_client w"
  unfolding preflight_def
  by (blast dest: bind_prog_Inr prepare_docker_client)

lemma start_container_ok:
  "docker_client w \<Longrightarrow>
   start_container w entrypoint s =
     (Inr (created_container_id w entrypoint),
      s\<lparr>trace := trace s @ [GetDockerClient, CreateHostConfig container_binds True,
                             CreateContainer falco_image entrypoint container_volumes,
                             DockerStart (created_container_id w entrypoint)]\<rparr>)"
  by (simp add: start_container_def bind_prog_def act_def ret_def)

lemma probe_device_unfold:
  assumes "docker_client w"
  shows "probe_device w s =
     (if str_contains (docker_logs w (created_container_id w None)) device_error
      then (Inl (DagdaError device_msg),
            s\<lparr>trace := trace s @ [GetDockerClient, CreateHostConfig container_binds True,
                       CreateContainer falco_image None container_volumes,
                       DockerStart (created_container_id w None), Sleep 30,
                       DockerLogs (created_container_id w None)],
               running_container_id := created_container_id w None\<rparr>)
      else (Inr (),
            s\<lparr>trace := trace s @ [GetDockerClient, CreateHostConfig container_binds True,
                       CreateContainer falco_image None container_volumes,
                       DockerStart (created_container_id w None), Sleep 30,
                       DockerLogs (created_container_id w None),
                       DockerStop (created_container_id w None),
                       DockerRemoveContainer (created_container_id w None)],
               running_container_id := created_container_id w None\<rparr>))"
  by (simp add: probe_device_def start_container_ok [OF assms] bind_prog_def act_def ret_def
        raise_def set_running_container_id_def get_running_container_id_def)

text \<open>
  The checks on a host that is not a container and whose \<^verbatim>\<open>/etc/os-release\<close> gives a
  name.
\<close>

lemma preflight_unfold:
  assumes "\<not> isfile w ''/.dockerenv''" and "os_release w = Inr content"
    and "first_name (text_readlines content) = Some d"
  shows "preflight w s =
     (case headers_command d (uname_release w) of
        Inl e \<Rightarrow> (Inl e, s\<lparr>trace := trace s @ [ReadOsRelease, Uname, IsFile ''/.dockerenv'']\<rparr>)
      | Inr argv \<Rightarrow>
          if subprocess_call w argv \<noteq> 0
          then (Inl (DagdaError missing_headers_msg),
                s\<lparr>trace := trace s @ [ReadOsRelease, Uname, IsFile ''/.dockerenv'',
                                       SubprocessCall argv]\<rparr>)
          else prepare_docker w
                (s\<lparr>trace := trace s @ [ReadOsRelease, Uname, IsFile ''/.dockerenv'',
                                       SubprocessCall argv]\<rparr>))"
  using assms
  by (simp add: preflight_def get_linux_distro_def check_requirements_def headers_lookup_def
        bind_prog_def act_def ret_def raise_def split: sum.splits)

lemma ubuntu_name: "first_name (text_readlines ubuntu_os_release) = Some ''Ubuntu''"
  by (simp add: text_readlines_def ubuntu_os_release_def newline_def carriage_return_def
        startswith_def str_remove_def remove_char_def)

lemma alpine_name: "first_name (text_readlines alpine_os_release) = Some ''Alpine Linux''"
  by (simp add: text_readlines_def alpine_os_release_def newline_def carriage_return_def
        startswith_def str_remove_def remove_char_def)

text \<open>
  A carriage return alone ends a line of \<^verbatim>\<open>/etc/os-release\<close>: the name is what precedes
  it.
\<close>

lemma name_before_carriage_return:
  "first_name (text_readlines (''NAME=\"Alpine\"'' @ [carriage_return]
                                 @ ''VARIANT=\"Ubuntu base\"'' @ [newline]))
     = Some ''Alpine''"
  by (simp add: text_readlines_def newline_def carriage_return_def startswith_def
        str_remove_def remove_char_def)

lemma ubuntu_family: "is_deb_family ''Ubuntu''" "\<not> is_rpm_family ''Ubuntu''"
  by (simp_all add: is_deb_family_def is_rpm_family_def startswith_def)

lemma alpine_family: "\<not> is_deb_family ''Alpine Linux''" "\<not> is_rpm_family ''Alpine Linux''"
  by (simp_all add: is_deb_family_def is_rpm_family_def startswith_def)

lemma self_managed_eq:
  "self_managed = \<lparr>falco_rules = [], falco_output_filename = ''/tmp/falco_output.json'',
                    external_falco = False\<rparr>"
  by (simp add: self_managed_def default_falco_output_filename_def tmp_directory_def)

lemma externally_managed_eq:
  "externally_managed = \<lparr>falco_rules = [], falco_output_filename = ''/var/log/falco.json'',
                          external_falco = True\<rparr>"
  by (simp add: externally_managed_def)

text \<open>
  C6. The monitor manages the sensor itself, does not run in a container, and
  \<^verbatim>\<open>/etc/os-release\<close>, read in text mode, names the distribution. On a distribution of the Debian family whose
  package query returns a code other than zero, \<^verbatim>\<open>pre_check\<close> raises the error of the
  missing kernel headers after the query, its only actions being the reads of the host and
  the query: no container is created or started. On a distribution of neither family it
  raises the error of the unsupported distribution.
\<close>

theorem pre_check_host_errors:
  assumes "\<not> external_falco m" and "\<not> isfile w ''/.dockerenv''"
    and "os_release w = Inr content" and "first_name (text_readlines content) = Some d"
  shows "(is_deb_family d \<and> headers_command d (uname_release w) = Inr argv
            \<and> subprocess_call w argv \<noteq> 0
          \<longrightarrow> pre_check w m s =
                (Inl (DagdaError missing_headers_msg),
                 s\<lparr>trace := trace s @ [ReadOsRelease, Uname, IsFile ''/.dockerenv'',
                                        SubprocessCall argv]\<rparr>))
       \<and> (\<not> is_rpm_family d \<and> \<not> is_deb_family d
          \<longrightarrow> pre_check w m s =
                (Inl (DagdaError unsupported_msg),
                 s\<lparr>trace := trace s @ [ReadOsRelease, Uname, IsFile ''/.dockerenv'']\<rparr>))"
  using assms(1)
  by (simp add: pre_check_def bind_prog_def preflight_unfold [OF assms(2-4)] headers_command_def)

theorem pre_check_host_errors_witness:
  "pre_check no_headers_world self_managed initial_state =
     (Inl (DagdaError missing_headers_msg),
      initial_state\<lparr>trace := [ReadOsRelease, Uname, IsFile ''/.dockerenv'',
                               SubprocessCall [''dpkg'', ''-l'', ''linux-headers-5.15.0-91-generic'']]\<rparr>)
   \<and> pre_check alpine_world self_managed initial_state =
     (Inl (DagdaError unsupported_msg),
      initial_state\<lparr>trace := [ReadOsRelease, Uname, IsFile ''/.dockerenv'']\<rparr>)"
proof -
  have a: "\<not> external_falco self_managed" by (simp add: self_managed_eq)
  have b: "\<not> isfile no_headers_world ''/.dockerenv''" "\<not> isfile alpine_world ''/.dockerenv''"
    by (simp_all add: no_headers_world_def alpine_world_def example_world_def
          default_falco_output_filename_def tmp_directory_def)
  have c: "os_release no_headers_world = Inr ubuntu_os_release"
    "os_release alpine_world = Inr alpine_os_release"
    by (simp_all add: no_headers_world_def alpine_world_def example_world_def)
  have d: "headers_command ''Ubuntu'' (uname_release no_headers_world)
             = Inr [''dpkg'', ''-l'', ''linux-headers-5.15.0-91-generic'']"
    by (simp add: headers_command_def ubuntu_family no_headers_world_def example_world_def)
  have e: "subprocess_call no_headers_world [''dpkg'', ''-l'', ''linux-headers-5.15.0-91-generic''] \<noteq> 0"
    by (simp add: no_headers_world_def)
  from pre_check_host_errors [OF a b(1) c(1) ubuntu_name,
         of "[''dpkg'', ''-l'', ''linux-headers-5.15.0-91-generic'']" initial_state]
       pre_check_host_errors [OF a b(2) c(2) alpine_name, of "[]" initial_state]
       d e ubuntu_family alpine_family
  show ?thesis by (simp add: initial_state_eq)
qed

text \<open>
  C7. The monitor manages the sensor itself and the checks before the probe have passed,
  leaving the state \<open>sa\<close>. \<^verbatim>\<open>pre_check\<close> then starts a container without entrypoint,
  sleeps 30 seconds and reads its logs. When the logs contain the message of the device
  that cannot be opened, it raises the device error and its last action is the read of
  the logs: the container is neither stopped nor removed. Otherwise it stops the
  container, removes it and returns.
\<close>

theorem pre_check_device_probe:
  assumes "\<not> external_falco m" and "preflight w s = (Inr (), sa)"
  shows "pre_check w m s =
     (if str_contains (docker_logs w (created_container_id w None)) device_error
      then (Inl (DagdaError device_msg),
            sa\<lparr>trace := trace sa @ [GetDockerClient, CreateHostConfig container_binds True,
                       CreateContainer falco_image None container_volumes,
                       DockerStart (created_container_id w None), Sleep 30,
                       DockerLogs (created_container_id w None)],
               running_container_id := created_container_id w None\<rparr>)
      else (Inr (),
            sa\<lparr>trace := trace sa @ [GetDockerClient, CreateHostConfig container_binds True,
                       CreateContainer falco_image None container_volumes,
                       DockerStart (created_container_id w None), Sleep 30,
                       DockerLogs (created_container_id w None),
                       DockerStop (created_container_id w None),
                       DockerRemoveContainer (created_container_id w None)],
               running_container_id := created_container_id w None\<rparr>))"
proof -
  have "pre_check w m s = probe_device w sa"
    using assms by (simp add: pre_check_def bind_prog_def)
  then show ?thesis by (simp only: probe_device_unfold [OF preflight_client [OF assms(2)]])
qed

lemma example_preflight:
  assumes "os_release w = Inr ubuntu_os_release" and "isfile w = isfile example_world"
    and "uname_release w = ''5.15.0-91-generic''" and "subprocess_call w = (\<lambda>argv. 0)"
    and "docker_client w" and "container_ids_by_image_name w = (\<lambda>img. [''c0ffee''])"
  shows "preflight w initial_state =
     (Inr (),
      initial_state\<lparr>trace := [ReadOsRelease, Uname, IsFile ''/.dockerenv'',
          SubprocessCall [''dpkg'', ''-l'', ''linux-headers-5.15.0-91-generic''],
          GetDockerClient, DockerPull ''falcosecurity/falco'' ''0.29.0'',
          GetDockerContainerIdsByImageName falco_image,
          DockerStop ''c0ffee'', DockerRemoveContainer ''c0ffee'',
          DeleteFalcoEventsCollection]\<rparr>)"
proof -
  have nf: "\<not> isfile w ''/.dockerenv''"
    by (simp add: assms(2) example_world_def default_falco_output_filename_def tmp_directory_def)
  show ?thesis
    by (simp add: preflight_unfold [OF nf assms(1) ubuntu_name] headers_command_def ubuntu_family
          assms prepare_docker_def bind_prog_def act_def ret_def initial_state_eq)
qed

theorem pre_check_device_probe_witness:
  "pre_check no_device_world self_managed initial_state =
     (Inl (DagdaError device_msg),
      \<lparr>trace = [ReadOsRelease, Uname, IsFile ''/.dockerenv'',
          SubprocessCall [''dpkg'', ''-l'', ''linux-headers-5.15.0-91-generic''],
          GetDockerClient, DockerPull ''falcosecurity/falco'' ''0.29.0'',
          GetDockerContainerIdsByImageName falco_image,
          DockerStop ''c0ffee'', DockerRemoveContainer ''c0ffee'',
          DeleteFalcoEventsCollection,
          GetDockerClient, CreateHostConfig container_binds True,
          CreateContainer falco_image None container_volumes,
          DockerStart ''c0ffee'', Sleep 30, DockerLogs ''c0ffee''],
        running_container_id = ''c0ffee''\<rparr>)
   \<and> pre_check example_world self_managed initial_state =
     (Inr (),
      \<lparr>trace = [ReadOsRelease, Uname, IsFile ''/.dockerenv'',
          SubprocessCall [''dpkg'', ''-l'', ''linux-headers-5.15.0-91-generic''],
          GetDockerClient, DockerPull ''falcosecurity/falco'' ''0.29.0'',
          GetDockerContainerIdsByImageName falco_image,
          DockerStop ''c0ffee'', DockerRemoveContainer ''c0ffee'',
          DeleteFalcoEventsCollection,
          GetDockerClient, CreateHostConfig container_binds True,
          CreateContainer falco_image None container_volumes,
          DockerStart ''c0ffee'', Sleep 30, DockerLogs ''c0ffee'',
          DockerStop ''c0ffee'', DockerRemoveContainer ''c0ffee''],
        running_container_id = ''c0ffee''\<rparr>)"
proof -
  have a: "\<not> external_falco self_managed" by (simp add: self_managed_eq)
  have p1: "preflight no_device_world initial_state =
     (Inr (),
      initial_state\<lparr>trace := [ReadOsRelease, Uname, IsFile ''/.dockerenv'',
          SubprocessCall [''dpkg'', ''-l'', ''linux-headers-5.15.0-91-generic''],
          GetDockerClient, DockerPull ''falcosecurity/falco'' ''0.29.0'',
          GetDockerContainerIdsByImageName falco_image,
          DockerStop ''c0ffee'', DockerRemoveContainer ''c0ffee'',
          DeleteFalcoEventsCollection]\<rparr>)"
    by (rule example_preflight) (simp_all add: no_device_world_def example_world_def)
  have p2: "preflight example_world initial_state =
     (Inr (),
      initial_state\<lparr>trace := [ReadOsRelease, Uname, IsFile ''/.dockerenv'',
          SubprocessCall [''dpkg'', ''-l'', ''linux-headers-5.15.0-91-generic''],
          GetDockerClient, DockerPull ''falcosecurity/falco'' ''0.29.0'',
          GetDockerContainerIdsByImageName falco_image,
          DockerStop ''c0ffee'', DockerRemoveContainer ''c0ffee'',
          DeleteFalcoEventsCollection]\<rparr>)"
    by (rule example_preflight) (simp_all add: example_world_def)
  have bad: "str_contains (docker_logs no_device_world (created_container_id no_device_world None))
               device_error"
    by (simp add: no_device_world_def device_error_def startswith_def)
  have good: "\<not> str_contains (docker_logs example_world (created_container_id example_world None))
               device_error"
    by (simp add: example_world_def device_error_def startswith_def)
  have ids: "created_container_id no_device_world None = ''c0ffee''"
    "created_container_id example_world None = ''c0ffee''"
    by (simp_all add: no_device_world_def example_world_def)
  from pre_check_device_probe [OF a p1] pre_check_device_probe [OF a p2] bad good
  show ?thesis by (simp add: ids initial_state_eq)
qed

section \<open>Properties of the externally managed mode\<close>

lemma tail_cycle_actions:
  "\<exists>new. trace (snd (tail_cycle w n pos s)) = trace s @ new
         \<and> (\<forall>a\<in>set new. \<not> is_engine_action a)"
  by (auto simp: tail_cycle_unfold is_engine_action_def split: sum.splits)

lemma tail_loop_actions:
  "\<exists>new. trace (snd (tail_loop w k n pos s)) = trace s @ new
         \<and> (\<forall>a\<in>set new. \<not> is_engine_action a)"
proof (induction k arbitrary: n pos s)
  case 0
  then show ?case by (simp add: ret_def)
next
  case (Suc k)
  obtain r sa where c: "tail_cycle w n pos s = (r, sa)" by (cases "tail_cycle w n pos s")
  from tail_cycle_actions [of w n pos s] c obtain new1
    where n1: "trace sa = trace s @ new1" "\<forall>a\<in>set new1. \<not> is_engine_action a" by auto
  show ?case
  proof (cases r)
    case (Inl e)
    then show ?thesis using c n1 by (simp add: bind_prog_def)
  next
    case (Inr pa)
    from Suc.IH [of "Suc n" pa sa] obtain new2
      where n2: "trace (snd (tail_loop w k (Suc n) pa sa)) = trace sa @ new2"
        "\<forall>a\<in>set new2. \<not> is_engine_action a" by auto
    have "trace (snd (tail_loop w (Suc k) n pos s)) = trace s @ (new1 @ new2)"
      using c Inr n1 n2 by (simp add: bind_prog_def)
    moreover have "\<forall>a\<in>set (new1 @ new2). \<not> is_engine_action a" using n1 n2 by auto
    ultimately show ?thesis by blast
  qed
qed

lemma run_external:
  assumes "external_falco m"
  shows "run w m k s =
     (if isfile w (falco_output_filename m)
      then tail_loop w k 0 0
             (s\<lparr>trace := trace s @ [IsFile (falco_output_filename m),
                                     OpenFile (falco_output_filename m)]\<rparr>)
      else (Inl (DagdaError output_not_found_msg),
            s\<lparr>trace := trace s @ [IsFile (falco_output_filename m)]\<rparr>))"
  using assms
  by (simp add: run_def launch_def verify_startup_def review_logs_def bind_prog_def ret_def
        act_def raise_def)

text \<open>
  A monitor constructed with a path for the output has the flag set and reads that path.
\<close>

lemma init_external:
  assumes "fst (init w filename flag rules (Some path)) = Inr m"
  shows "external_falco m" and "falco_output_filename m = path"
  using assms
  by (auto simp: init_def output_settings_def split: option.splits)

text \<open>The monitors of the examples are the ones the constructor returns.\<close>

lemma init_examples:
  "init example_world default_falco_output_filename False None None
     = (Inr self_managed, initial_state)"
  "init example_world default_falco_output_filename False None (Some ''/var/log/falco.json'')
     = (Inr externally_managed, initial_state)"
  by (simp_all add: init_def output_settings_def self_managed_def externally_managed_def
        initial_state_def)

text \<open>When the rules file cannot be copied, the constructor raises.\<close>

lemma init_copy_fails:
  "copyfile w f falco_custom_rules_filename = Some e \<Longrightarrow>
     init w filename flag (Some f) ext
       = (Inl e, \<lparr> trace = [CopyFile f falco_custom_rules_filename], running_container_id = [] \<rparr>)"
  by (simp add: init_def)

text \<open>
  C8. When the output of the sensor is managed elsewhere, \<^verbatim>\<open>pre_check\<close> returns at once
  and performs no action at all. \<^verbatim>\<open>run\<close> asks whether the output file exists and, when
  it does, opens it and enters the loop; when it does not, \<^verbatim>\<open>run\<close> raises. Whatever
  the number of turns of the loop, \<^verbatim>\<open>run\<close> makes no call to the Docker driver: no
  container is created or started and no logs are read.
\<close>

theorem external_output_no_engine:
  assumes "external_falco m"
  shows "pre_check w m s = (Inr (), s)
     \<and> run w m k s =
         (if isfile w (falco_output_filename m)
          then tail_loop w k 0 0
                 (s\<lparr>trace := trace s @ [IsFile (falco_output_filename m),
                                         OpenFile (falco_output_filename m)]\<rparr>)
          else (Inl (DagdaError output_not_found_msg),
                s\<lparr>trace := trace s @ [IsFile (falco_output_filename m)]\<rparr>))
     \<and> (\<exists>new. trace (snd (run w m k s)) = trace s @ new
              \<and> (\<forall>a\<in>set new. \<not> is_engine_action a))"
proof -
  let ?f = "falco_output_filename m"
  have pre: "pre_check w m s = (Inr (), s)"
    using assms by (simp add: pre_check_def ret_def)
  have "\<exists>new. trace (snd (run w m k s)) = trace s @ new \<and> (\<forall>a\<in>set new. \<not> is_engine_action a)"
  proof (cases "isfile w ?f")
    case True
    from tail_loop_actions [of w k 0 0 "s\<lparr>trace := trace s @ [IsFile ?f, OpenFile ?f]\<rparr>"]
    obtain new where n: "trace (snd (tail_loop w k 0 0 (s\<lparr>trace := trace s @ [IsFile ?f, OpenFile ?f]\<rparr>)))
        = trace s @ [IsFile ?f, OpenFile ?f] @ new" "\<forall>a\<in>set new. \<not> is_engine_action a"
      by auto
    have "\<forall>a\<in>set ([IsFile ?f, OpenFile ?f] @ new). \<not> is_engine_action a"
      using n(2) by (simp add: is_engine_action_def)
    with n(1) True show ?thesis unfolding run_external [OF assms] by (simp del: append.simps)
  next
    case False
    have "\<forall>a\<in>set [IsFile ?f]. \<not> is_engine_action a" by (simp add: is_engine_action_def)
    with False show ?thesis unfolding run_external [OF assms] by simp
  qed
  with pre run_external [OF assms, of w k s] show ?thesis by simp
qed

theorem external_output_no_engine_witness:
  "external_falco externally_managed
   \<and> pre_check example_world externally_managed initial_state = (Inr (), initial_state)
   \<and> run example_world externally_managed (Suc 0) initial_state =
       (Inr 264,
        initial_state\<lparr>trace := [IsFile ''/var/log/falco.json'', OpenFile ''/var/log/falco.json'',
                                 SeekReadlinesTell 0,
                                 BulkInsertSysdigFalcoEvents [scenario_event], Sleep 2]\<rparr>)"
proof -
  have a: "external_falco externally_managed" by (simp add: externally_managed_eq)
  have f: "isfile example_world (falco_output_filename externally_managed)"
    by (simp add: externally_managed_eq example_world_def)
  have c: "tail_cycle example_world 0 0 s =
     (Inr 264, s\<lparr>trace := trace s @ [SeekReadlinesTell 0,
                                      BulkInsertSysdigFalcoEvents [scenario_event], Sleep 2]\<rparr>)"
    for s
    by (simp add: tail_cycle_unfold example_file_lines example_file_length example_world_library
          scenario_record_event host_record_skipped)
  from external_output_no_engine [OF a, of example_world initial_state "Suc 0"] a f
  show ?thesis
    by (simp add: bind_prog_def ret_def c externally_managed_eq initial_state_eq)
qed

end
